theory Spec2Isabelle
  imports Complex_Main "HOL-Library.Sublist" "HOL-Library.AList"
begin

section \<open>MediaConverter: the option translator and the process runner of converter.py\<close>

subsection \<open>Python strings: \<open>str(int)\<close>, \<open>sep.join\<close>, \<open>str.lower\<close>\<close>

text \<open>
  A Python \<open>str\<close> is modelled as a \<open>string\<close> (a list of 8-bit characters); every string the
  translator builds itself is ASCII. \<open>str(n)\<close> of an unbounded Python int is the decimal
  numeral with a leading minus sign for negative values.
\<close>

definition digit_char :: "nat \<Rightarrow> char" where
  "digit_char n = ''0123456789'' ! n"

fun digits :: "nat \<Rightarrow> string" where
  "digits n = (if n < 10 then [digit_char n] else digits (n div 10) @ [digit_char (n mod 10)])"

declare digits.simps [simp del]

definition str_int :: "int \<Rightarrow> string" where
  "str_int i = (if i < 0 then CHR ''-'' # digits (nat (- i)) else digits (nat i))"

text \<open>\<open>sep.join(parts)\<close>.\<close>

fun join :: "string \<Rightarrow> string list \<Rightarrow> string" where
  "join sep [] = []"
| "join sep [x] = x"
| "join sep (x # y # ys) = x @ sep @ join sep (y # ys)"

text \<open>
  \<open>str.lower()\<close>, on the ASCII letters: every extension the code compares against is ASCII.
\<close>

definition lower_char :: "char \<Rightarrow> char" where
  "lower_char c =
     (case map_of (zip ''ABCDEFGHIJKLMNOPQRSTUVWXYZ'' ''abcdefghijklmnopqrstuvwxyz'') c of
        Some d \<Rightarrow> d
      | None \<Rightarrow> c)"

definition lower :: "string \<Rightarrow> string" where
  "lower s = map lower_char s"

subsection \<open>ConvertOptions\<close>

text \<open>The dataclass \<open>ConvertOptions\<close>: every field is \<open>Optional\<close>, with default \<open>None\<close>.\<close>

record ConvertOptions =
  width :: "int option"
  height :: "int option"
  fps :: "int option"
  quality :: "int option"
  bitrate :: "string option"
  audio_bitrate :: "string option"
  codec :: "string option"
  preset :: "string option"
  extra_args :: "string list option"
  output_dir :: "string option"

definition default_options :: ConvertOptions where
  "default_options =
     \<lparr>width = None, height = None, fps = None, quality = None, bitrate = None,
      audio_bitrate = None, codec = None, preset = None, extra_args = None,
      output_dir = None\<rparr>"

text \<open>
  Python truthiness, as the tests \<open>if opts.width\<close>, \<open>opts.fps or 30\<close>, \<open>if opts.bitrate\<close> use it:
  \<open>None\<close>, the integer \<open>0\<close> and the empty string (or list) are false.
\<close>

fun truthy_int :: "int option \<Rightarrow> bool" where
  "truthy_int None = False"
| "truthy_int (Some n) = (n \<noteq> 0)"

fun truthy_str :: "'a list option \<Rightarrow> bool" where
  "truthy_str None = False"
| "truthy_str (Some s) = (s \<noteq> [])"

text \<open>\<open>x or d\<close> for an optional integer \<open>x\<close> and an integer default \<open>d\<close>.\<close>

fun or_int :: "int option \<Rightarrow> int \<Rightarrow> int" where
  "or_int None d = d"
| "or_int (Some n) d = (if n \<noteq> 0 then n else d)"

fun or_str :: "string option \<Rightarrow> string \<Rightarrow> string" where
  "or_str None d = d"
| "or_str (Some s) d = (if s \<noteq> [] then s else d)"

subsection \<open>The option translator\<close>

text \<open>
  \<open>MediaConverter._build_filter\<close>, block by block: the scale filter, the frame-rate filter,
  and the \<open>-vf\<close> flag that joins them.
\<close>

definition scale_filters :: "ConvertOptions \<Rightarrow> string list" where
  "scale_filters opts =
     (if truthy_int (width opts) \<or> truthy_int (height opts) then
        (let w = or_int (width opts) (- 1);
             h = or_int (height opts) (- 1)
         in if w = - 1 then [''scale=-1:'' @ str_int h]
            else if h = - 1 then [''scale='' @ str_int w @ '':-1'']
            else [''scale='' @ str_int w @ '':'' @ str_int h])
      else [])"

definition fps_filters :: "ConvertOptions \<Rightarrow> string list" where
  "fps_filters opts =
     (case fps opts of
        Some f \<Rightarrow> (if f \<noteq> 0 then [''fps='' @ str_int f] else [])
      | None \<Rightarrow> [])"

definition build_filter :: "ConvertOptions \<Rightarrow> string list" where
  "build_filter opts =
     (let filters = scale_filters opts @ fps_filters opts
      in if filters \<noteq> [] then [''-vf'', join '','' filters] else [])"

definition codec_map :: "(string \<times> string) list" where
  "codec_map =
     [(''.mp4'', ''libx264''), (''.mov'', ''libx264''), (''.m4v'', ''libx264''),
      (''.avi'', ''libxvid''),
      (''.mkv'', ''libx264''),
      (''.webm'', ''libvpx-vp9''),
      (''.wmv'', ''wmv2''),
      (''.flv'', ''libx264''),
      (''.gif'', ''gif'')]"

text \<open>The GIF branch of \<open>_build_video_opts\<close>: the fixed palette filter graph.\<close>

definition gif_filter :: "ConvertOptions \<Rightarrow> string" where
  "gif_filter opts =
     ''fps='' @ str_int (or_int (fps opts) 30) @ '',scale='' @ str_int (or_int (width opts) 480)
       @ '':-1:flags=lanczos,split[s0][s1];[s0]palettegen=max_colors=128[p];[s1][p]paletteuse''"

text \<open>
  The tail of \<open>_build_video_opts\<close>, after the codec selection: quality or bitrate, preset,
  audio, extra arguments.
\<close>

definition video_tail :: "ConvertOptions \<Rightarrow> string list" where
  "video_tail opts =
     (case quality opts of
        Some q \<Rightarrow> [''-crf'', str_int q]
      | None \<Rightarrow>
          (case bitrate opts of
             Some b \<Rightarrow> (if b \<noteq> [] then [''-b:v'', b] else [])
           | None \<Rightarrow> []))
     @ (case preset opts of
          Some p \<Rightarrow> (if p \<noteq> [] then [''-preset'', p] else [])
        | None \<Rightarrow> [])
     @ [''-c:a'', ''aac'', ''-b:a'', or_str (audio_bitrate opts) ''192k'']
     @ (case extra_args opts of Some xs \<Rightarrow> xs | None \<Rightarrow> [])"

text \<open>\<open>MediaConverter._build_video_opts\<close>; the GIF branch returns early.\<close>

definition build_video_opts :: "string \<Rightarrow> ConvertOptions \<Rightarrow> string list" where
  "build_video_opts output_ext opts =
     (let args = build_filter opts
      in if truthy_str (codec opts)
         then args @ [''-c:v'', or_str (codec opts) []] @ video_tail opts
         else (case map_of codec_map (lower output_ext) of
                 Some c \<Rightarrow>
                   (if lower output_ext = ''.gif''
                    then args @ [''-vf'', gif_filter opts, ''-loop'', ''0'']
                    else args @ [''-c:v'', c] @ video_tail opts)
               | None \<Rightarrow> args @ video_tail opts))"

text \<open>
  \<open>MediaConverter._build_image_opts\<close>: its scale filter, then the quality arguments per
  format. Python's \<open>//\<close> is floor division, as \<open>div\<close> on \<open>int\<close>.
\<close>

definition image_scale_filters :: "ConvertOptions \<Rightarrow> string list" where
  "image_scale_filters opts =
     (if truthy_int (width opts) \<or> truthy_int (height opts) then
        [''scale='' @ str_int (or_int (width opts) (- 1)) @ '':''
           @ str_int (or_int (height opts) (- 1)) @ '':flags=lanczos'']
      else [])"

definition build_image_opts :: "string \<Rightarrow> ConvertOptions \<Rightarrow> string list" where
  "build_image_opts output_ext opts =
     (let vf0 = image_scale_filters opts;
          q = (case quality opts of None \<Rightarrow> 2 | Some q \<Rightarrow> q);
          ext = lower output_ext;
          vf = (if ext \<in> {''.jpg'', ''.jpeg''} then vf0 @ [''format=yuvj420p''] else vf0);
          args =
            (if ext \<in> {''.jpg'', ''.jpeg''} then [''-q:v'', str_int (min (max q 2) 31)]
             else if ext = ''.png'' then [''-compression_level'', str_int (min (max (q div 3) 0) 9)]
             else if ext = ''.webp'' then [''-q:v'', str_int (min (max q 1) 100)]
             else [])
      in args @ (if vf \<noteq> [] then [''-vf'', join '','' vf] else []) @ [''-y''])"

subsection \<open>Python floats\<close>

text \<open>
  A Python \<open>float\<close> is an IEEE 754 binary64 value. A finite one is \<open>Fin m e\<close>, the number
  \<open>m * 2 ^ e\<close>; the other values are the two infinities and \<open>nan\<close>. The sign of a zero is
  not kept: the code never divides by a zero, and \<open>int\<close>, \<open>==\<close> and \<open>*\<close> do not tell the two
  zeros apart. Every operation rounds its exact result to the nearest double, ties to the
  even mantissa, and a result of magnitude \<open>2 ^ 1024\<close> or more after rounding is an
  infinity.
\<close>

datatype pyfloat = Fin int int | PInf | NInf | NaN

text \<open>The number of binary digits of a positive integer.\<close>

function bit_length :: "int \<Rightarrow> int" where
  "bit_length n = (if n \<le> 0 then 0 else 1 + bit_length (n div 2))"
  by pat_completeness auto
termination
  by (relation "measure nat") auto

declare bit_length.simps [simp del]

text \<open>\<open>a / q \<ge> 2 ^ k\<close>, for positive \<open>a\<close> and \<open>q\<close>, in integers.\<close>

definition ratio_ge :: "int \<Rightarrow> int \<Rightarrow> int \<Rightarrow> bool" where
  "ratio_ge a q k = (if 0 \<le> k then q * 2 ^ nat k \<le> a else q \<le> a * 2 ^ nat (- k))"

text \<open>The integer nearest to \<open>num / den\<close>, a tie going to the even one (\<open>den > 0\<close>).\<close>

definition round_half_even :: "int \<Rightarrow> int \<Rightarrow> int" where
  "round_half_even num den =
     (let f = num div den; r2 = 2 * (num mod den)
      in if r2 < den then f else if den < r2 then f + 1 else if even f then f else f + 1)"

text \<open>
  The double nearest to \<open>p / q\<close> (\<open>q > 0\<close>): with \<open>2 ^ e \<le> |p / q| < 2 ^ (e + 1)\<close> the
  mantissa has 53 bits, so the last place is \<open>2 ^ (e - 52)\<close>, but never below the
  subnormal \<open>2 ^ - 1074\<close>.
\<close>

definition round_ratio :: "int \<Rightarrow> int \<Rightarrow> pyfloat" where
  "round_ratio p q =
     (if p = 0 then Fin 0 0
      else
        (let a = \<bar>p\<bar>;
             e0 = bit_length a - bit_length q;
             e = (if ratio_ge a q e0 then e0 else e0 - 1);
             u = max (e - 52) (- 1074);
             m = (if 0 \<le> u then round_half_even a (q * 2 ^ nat u)
                  else round_half_even (a * 2 ^ nat (- u)) q)
         in if 0 \<le> u \<and> 2 ^ 1024 \<le> m * 2 ^ nat u then (if 0 < p then PInf else NInf)
            else Fin (if 0 < p then m else - m) u))"

text \<open>The double nearest to \<open>(p / q) * 2 ^ s\<close>.\<close>

definition round_scaled :: "int \<Rightarrow> int \<Rightarrow> int \<Rightarrow> pyfloat" where
  "round_scaled p q s =
     (if 0 \<le> s then round_ratio (p * 2 ^ nat s) q else round_ratio p (q * 2 ^ nat (- s)))"

datatype pyerror = ValueError | OSError | OverflowError | ZeroDivisionError

text \<open>
  The conversion of the left operand in \<open>int / float\<close>: an integer too large for a double
  raises \<open>OverflowError\<close>.
\<close>

definition float_of_int :: "int \<Rightarrow> pyerror + pyfloat" where
  "float_of_int n =
     (case round_ratio n 1 of
        Fin m e \<Rightarrow> Inr (Fin m e)
      | _ \<Rightarrow> Inl OverflowError)"

text \<open>\<open>x / y\<close> on floats: only a zero divisor raises; an overflow gives an infinity.\<close>

fun fdiv :: "pyfloat \<Rightarrow> pyfloat \<Rightarrow> pyerror + pyfloat" where
  "fdiv x (Fin m2 e2) =
     (if m2 = 0 then Inl ZeroDivisionError
      else Inr (case x of
                  Fin m1 e1 \<Rightarrow> round_scaled (sgn m2 * m1) \<bar>m2\<bar> (e1 - e2)
                | PInf \<Rightarrow> (if 0 < m2 then PInf else NInf)
                | NInf \<Rightarrow> (if 0 < m2 then NInf else PInf)
                | NaN \<Rightarrow> NaN))"
| "fdiv (Fin m1 e1) PInf = Inr (Fin 0 0)"
| "fdiv (Fin m1 e1) NInf = Inr (Fin 0 0)"
| "fdiv x y = Inr NaN"

text \<open>\<open>x * y\<close> on floats.\<close>

fun fmul :: "pyfloat \<Rightarrow> pyfloat \<Rightarrow> pyfloat" where
  "fmul (Fin m1 e1) (Fin m2 e2) = round_scaled (m1 * m2) 1 (e1 + e2)"
| "fmul NaN y = NaN"
| "fmul x NaN = NaN"
| "fmul (Fin m e) PInf = (if m = 0 then NaN else if 0 < m then PInf else NInf)"
| "fmul (Fin m e) NInf = (if m = 0 then NaN else if 0 < m then NInf else PInf)"
| "fmul PInf (Fin m e) = (if m = 0 then NaN else if 0 < m then PInf else NInf)"
| "fmul NInf (Fin m e) = (if m = 0 then NaN else if 0 < m then NInf else PInf)"
| "fmul PInf PInf = PInf"
| "fmul PInf NInf = NInf"
| "fmul NInf PInf = NInf"
| "fmul NInf NInf = PInf"

text \<open>
  \<open>int(x)\<close> truncates towards zero; an infinity raises \<open>OverflowError\<close>, \<open>nan\<close> raises
  \<open>ValueError\<close>.
\<close>

fun int_of_float :: "pyfloat \<Rightarrow> pyerror + int" where
  "int_of_float (Fin m e) =
     Inr (if 0 \<le> e then m * 2 ^ nat e else sgn m * (\<bar>m\<bar> div 2 ^ nat (- e)))"
| "int_of_float NaN = Inl ValueError"
| "int_of_float x = Inl OverflowError"

text \<open>\<open>x == 0\<close>.\<close>

fun float_is_zero :: "pyfloat \<Rightarrow> bool" where
  "float_is_zero (Fin m e) = (m = 0)"
| "float_is_zero x = False"

text \<open>The literal \<open>0.9\<close>: the double nearest to nine tenths.\<close>

definition point_nine :: pyfloat where
  "point_nine = round_ratio 9 10"

subsection \<open>The operating system and the libraries, as the code sees them\<close>

text \<open>
  What \<open>convert\<close> and \<open>compress_media\<close> ask of the outside world, one field per
  call: the attributes of the converter object, \<open>os.path.exists\<close>, \<open>pathlib\<close>'s
  \<open>suffix\<close>, \<open>stem\<close>, \<open>parent\<close> and \<open>/\<close>, \<open>mkdir\<close>, the two child processes, \<open>os.path.getsize\<close>
  once the engine has exited, and Python's \<open>float\<close> on a string. A call that raises
  answers \<open>None\<close> (\<open>False\<close> for \<open>mkdir\<close>). The theorems hold for every such world.
  \<open>ffmpeg_path\<close> is a string: \<open>main\<close> runs \<open>check\<close>, which exits the program when no engine
  was found, before any conversion.
\<close>

record os_env =
  ffmpeg_path :: string
  ffprobe_path :: "string option"
  path_exists :: "string \<Rightarrow> bool"
  suffix :: "string \<Rightarrow> string"
  stem :: "string \<Rightarrow> string"
  parent :: "string \<Rightarrow> string"
  join_path :: "string \<Rightarrow> string \<Rightarrow> string"
  mkdir :: "string \<Rightarrow> bool"
  popen :: "string list \<Rightarrow> int option"
  getsize :: "string \<Rightarrow> nat option"
  run_probe :: "string list \<Rightarrow> string option"
  float_of_str :: "string \<Rightarrow> pyfloat option"

subsection \<open>The extension classes\<close>

definition VIDEO_EXTS :: "string set" where
  "VIDEO_EXTS =
     {''.mp4'', ''.avi'', ''.mkv'', ''.mov'', ''.wmv'', ''.flv'', ''.webm'', ''.m4v'', ''.ts'',
      ''.m2ts''}"

definition IMAGE_EXTS :: "string set" where
  "IMAGE_EXTS =
     {''.jpg'', ''.jpeg'', ''.png'', ''.bmp'', ''.gif'', ''.webp'', ''.tiff'', ''.tif'', ''.ico'',
      ''.raw'', ''.cr2'', ''.nef''}"

definition AUDIO_EXTS :: "string set" where
  "AUDIO_EXTS = {''.mp3'', ''.wav'', ''.aac'', ''.flac'', ''.ogg'', ''.m4a'', ''.wma''}"

subsection \<open>convert\<close>

text \<open>
  The command that \<open>convert\<close> builds (from \<open>opts = opts or ConvertOptions()\<close> to
  \<open>cmd.append(output_file)\<close>), for options already defaulted.
\<close>

definition convert_cmd :: "os_env \<Rightarrow> string \<Rightarrow> string \<Rightarrow> ConvertOptions \<Rightarrow> string list" where
  "convert_cmd E input_file output_file opts =
     (let input_ext = lower (suffix E input_file);
          output_ext = lower (suffix E output_file);
          is_video_input = (input_ext \<in> VIDEO_EXTS \<or> input_ext \<in> {''.gif''});
          is_image_input = (input_ext \<in> IMAGE_EXTS);
          is_video_output = (output_ext \<in> VIDEO_EXTS \<or> output_ext = ''.gif'');
          cmd =
            (if is_video_output then
               (if is_image_input then
                  [ffmpeg_path E, ''-loop'', ''1'', ''-i'', input_file,
                   ''-c:v'', or_str (codec opts) ''libx264'',
                   ''-t'', str_int 5,
                   ''-pix_fmt'', ''yuv420p'']
                  @ build_filter opts
                  @ (case quality opts of
                       Some q \<Rightarrow> (if q \<noteq> 0 then [''-crf'', str_int q] else [])
                     | None \<Rightarrow> [])
                else [ffmpeg_path E, ''-i'', input_file] @ build_video_opts output_ext opts)
             else
               [ffmpeg_path E, ''-i'', input_file]
               @ (if is_video_input then [''-ss'', ''00:00:01'', ''-vframes'', ''1''] else [])
               @ build_image_opts output_ext opts)
      in cmd @ [output_file])"

text \<open>
  \<open>MediaConverter.convert\<close>. The result is the returned flag together with the commands
  handed to \<open>subprocess.Popen\<close>. Any exception inside the \<open>try\<close> (from \<open>Popen\<close>, from reading
  the child's output, from \<open>os.path.getsize\<close>) is caught and gives \<open>False\<close>.
\<close>

definition convert ::
  "os_env \<Rightarrow> string \<Rightarrow> string \<Rightarrow> ConvertOptions option \<Rightarrow> bool \<times> string list list" where
  "convert E input_file output_file opts0 =
     (if \<not> path_exists E input_file then (False, [])
      else
        (let opts = (case opts0 of None \<Rightarrow> default_options | Some opts \<Rightarrow> opts);
             cmd = convert_cmd E input_file output_file opts
         in case popen E cmd of
              None \<Rightarrow> (False, [cmd])
            | Some returncode \<Rightarrow>
                (if returncode = 0 then
                   (case getsize E output_file of
                      None \<Rightarrow> (False, [cmd])
                    | Some nbytes \<Rightarrow> (True, [cmd]))
                 else (False, [cmd]))))"

subsection \<open>Probing and size-targeted compression\<close>

text \<open>\<open>s.split(sep)\<close> for a one-character separator.\<close>

fun split_on :: "char \<Rightarrow> string \<Rightarrow> string list" where
  "split_on sep [] = [ [] ]"
| "split_on sep (c # cs) =
     (if c = sep then [] # split_on sep cs
      else (case split_on sep cs of [] \<Rightarrow> [ [c] ] | x # xs \<Rightarrow> (c # x) # xs))"

text \<open>
  The loop of \<open>get_info\<close> over the lines of the probe's output: a line with an \<open>=\<close> is split at
  the first one, and a later line overrides an earlier one with the same key. The dict is
  an association list.
\<close>

fun parse_info :: "string list \<Rightarrow> (string \<times> string) list \<Rightarrow> (string \<times> string) list" where
  "parse_info [] info = info"
| "parse_info (line # rest) info =
     (if CHR ''='' \<in> set line
      then parse_info rest
             (AList.update (takeWhile (\<lambda>c. c \<noteq> CHR ''='') line)
                (tl (dropWhile (\<lambda>c. c \<noteq> CHR ''='') line)) info)
      else parse_info rest info)"

text \<open>\<open>MediaConverter.get_info\<close>.\<close>

definition get_info :: "os_env \<Rightarrow> string \<Rightarrow> (string \<times> string) list" where
  "get_info E filepath =
     (case ffprobe_path E of
        None \<Rightarrow> []
      | Some probe \<Rightarrow>
          (case run_probe E
                  [probe, ''-v'', ''error'', ''-select_streams'', ''v:0'',
                   ''-show_entries'', ''stream=width,height,duration,r_frame_rate,codec_name'',
                   ''-show_entries'', ''format=duration,size,bit_rate'',
                   ''-of'', ''default=noprint_wrappers=1'', filepath] of
             None \<Rightarrow> []
           | Some out \<Rightarrow> parse_info (split_on CHR 0x0A out) []))"

text \<open>
  \<open>float(info.get('duration', 0) or info.get('format.duration', 0))\<close>: a missing or empty
  \<open>duration\<close> falls through to \<open>format.duration\<close>; when that is missing too the value is
  \<open>float(0)\<close>. A string that \<open>float\<close> rejects raises \<open>ValueError\<close>.
\<close>

definition probe_duration :: "os_env \<Rightarrow> (string \<times> string) list \<Rightarrow> pyerror + pyfloat" where
  "probe_duration E info =
     (let v = (case map_of info ''duration'' of
                 Some s \<Rightarrow> (if s \<noteq> [] then Some s else map_of info ''format.duration'')
               | None \<Rightarrow> map_of info ''format.duration'')
      in case v of
           None \<Rightarrow> Inr (Fin 0 0)
         | Some s \<Rightarrow> (case float_of_str E s of None \<Rightarrow> Inl ValueError | Some d \<Rightarrow> Inr d))"

text \<open>\<open>MediaConverter._get_output_path\<close>; \<open>mkdir\<close> may raise.\<close>

definition get_output_path ::
  "os_env \<Rightarrow> string \<Rightarrow> string \<Rightarrow> string \<Rightarrow> ConvertOptions \<Rightarrow> pyerror + string" where
  "get_output_path E input_file sfx ext opts =
     (let output_name = stem E input_file @ ''_'' @ sfx @ ''.'' @ ext
      in if truthy_str (output_dir opts)
         then (if mkdir E (or_str (output_dir opts) [])
               then Inr (join_path E (or_str (output_dir opts) []) output_name)
               else Inl OSError)
         else Inr (join_path E (parent E input_file) output_name))"

text \<open>
  The two arithmetic lines of \<open>compress_media\<close>:
  \<open>target_bits = (target_size_mb * 8 * 1024 * 1024) / duration\<close> and
  \<open>target_bits_safe = int(target_bits * 0.9)\<close>. The product of integers is exact; the
  division and the multiplication are float operations.
\<close>

definition target_bits_safe :: "int \<Rightarrow> pyfloat \<Rightarrow> pyerror + int" where
  "target_bits_safe target_size_mb duration =
     (case float_of_int (target_size_mb * 8 * 1024 * 1024) of
        Inl err \<Rightarrow> Inl err
      | Inr n \<Rightarrow>
          (case fdiv n duration of
             Inl err \<Rightarrow> Inl err
           | Inr target_bits \<Rightarrow> int_of_float (fmul target_bits point_nine)))"

text \<open>The options \<open>comp_opts\<close> that \<open>compress_media\<close> builds from \<open>target_bits_safe\<close>.\<close>

definition compress_opts :: "int \<Rightarrow> ConvertOptions \<Rightarrow> ConvertOptions" where
  "compress_opts bits_safe opts =
     default_options
       \<lparr>bitrate := Some (str_int (bits_safe div 1024) @ ''k''),
        audio_bitrate := Some ''128k'',
        preset := Some ''slow'',
        output_dir := output_dir opts\<rparr>"

text \<open>
  \<open>MediaConverter.compress_media\<close>: \<open>Inl\<close> is an exception that leaves the function, \<open>Inr\<close> the
  returned flag with the engine commands handed to \<open>Popen\<close>.
\<close>

definition compress_media ::
  "os_env \<Rightarrow> string \<Rightarrow> int \<Rightarrow> ConvertOptions option \<Rightarrow> pyerror + bool \<times> string list list" where
  "compress_media E input_file target_size_mb opts0 =
     (let opts = (case opts0 of None \<Rightarrow> default_options | Some opts \<Rightarrow> opts);
          info = get_info E input_file
      in if info = [] then Inr (False, [])
         else
           (case probe_duration E info of
              Inl err \<Rightarrow> Inl err
            | Inr duration \<Rightarrow>
                (if float_is_zero duration then Inr (False, [])
                 else
                   (case target_bits_safe target_size_mb duration of
                      Inl err \<Rightarrow> Inl err
                    | Inr bits_safe \<Rightarrow>
                        (case get_output_path E input_file ''compressed'' ''mp4'' opts of
                           Inl err \<Rightarrow> Inl err
                         | Inr output \<Rightarrow>
                             Inr (convert E input_file output
                                    (Some (compress_opts bits_safe opts))))))))"

subsection \<open>Option names of an argument list\<close>

text \<open>
  The engine reads its arguments as options, each followed by its value. Every option
  \<open>_build_video_opts\<close> emits by itself (\<open>-vf\<close>, \<open>-c:v\<close>, \<open>-crf\<close>, \<open>-b:v\<close>, \<open>-preset\<close>, \<open>-c:a\<close>,
  \<open>-b:a\<close>, \<open>-loop\<close>) takes exactly one value, so the options of such a list are its
  elements at the even positions; the elements at the odd positions are values, whatever
  they spell.
\<close>

fun flags_of :: "string list \<Rightarrow> string list" where
  "flags_of (flag # val # rest) = flag # flags_of rest"
| "flags_of [flag] = [flag]"
| "flags_of [] = []"

subsection \<open>The bitrate rule in the specification's words\<close>

text \<open>
  The specification's rule for size-targeted compression, for comparison with
  \<open>target_bits_safe\<close>: the total bitrate \<open>(targetMB * 8 * 1024 * 1024) / d\<close>, less the bits
  per second reserved for audio, times the 0.9 margin, as a whole number of kbit/s with
  the suffix \<open>k\<close>; in the same float arithmetic (a total that is not finite stays as it is). The reserve is a parameter, so that
  128 kbit/s can be read as \<open>128 * 1024\<close> (the unit the code divides by) or as \<open>128 * 1000\<close>.
\<close>

definition spec_video_bits :: "int \<Rightarrow> int \<Rightarrow> pyfloat \<Rightarrow> pyerror + int" where
  "spec_video_bits audio_reserve target_size_mb duration =
     (case float_of_int (target_size_mb * 8 * 1024 * 1024) of
        Inl err \<Rightarrow> Inl err
      | Inr n \<Rightarrow>
          (case fdiv n duration of
             Inl err \<Rightarrow> Inl err
           | Inr (Fin m e) \<Rightarrow>
               int_of_float
                 (fmul (if 0 \<le> e then round_ratio (m * 2 ^ nat e - audio_reserve) 1
                        else round_ratio (m - audio_reserve * 2 ^ nat (- e)) (2 ^ nat (- e)))
                    point_nine)
           | Inr other \<Rightarrow> int_of_float (fmul other point_nine)))"

definition spec_video_bitrate :: "int \<Rightarrow> int \<Rightarrow> pyfloat \<Rightarrow> string option" where
  "spec_video_bitrate audio_reserve target_size_mb duration =
     (case spec_video_bits audio_reserve target_size_mb duration of
        Inr bits \<Rightarrow> Some (str_int (bits div 1024) @ ''k'')
      | Inl err \<Rightarrow> None)"

subsection \<open>A sample world\<close>

text \<open>
  A world for the concrete instances below: every file exists, the engine exits with the
  given status, the output file has the given size afterwards, and the probe prints the
  given text. File names are plain names without a directory. For these \<open>pathlib\<close> gives
  the suffix from the last dot on, unless that dot is the first or the last character
  (then there is none), the stem as the rest, and the parent \<open>.\<close>, which \<open>/\<close> drops again.
  Its \<open>float\<close> reads unsigned decimal texts (digits, with at most one point) and rounds
  them to the nearest double; it rejects everything else, which is right for the one
  other text used below, \<open>N/A\<close>.
\<close>

definition sample_suffix :: "string \<Rightarrow> string" where
  "sample_suffix p =
     (let ext = rev (takeWhile (\<lambda>c. c \<noteq> CHR ''.'') (rev p))
      in if CHR ''.'' \<in> set p \<and> ext \<noteq> [] \<and> length ext + 1 < length p
         then CHR ''.'' # ext else [])"

definition digit_value :: "char \<Rightarrow> int" where
  "digit_value c = (case map_of (zip ''0123456789'' [0, 1, 2, 3, 4, 5, 6, 7, 8, 9]) c of
                      Some d \<Rightarrow> d
                    | None \<Rightarrow> 0)"

definition sample_float :: "string \<Rightarrow> pyfloat option" where
  "sample_float s =
     (let whole = takeWhile (\<lambda>c. c \<noteq> CHR ''.'') s;
          frac = drop (length whole + 1) s
      in if whole @ frac \<noteq> [] \<and> set (whole @ frac) \<subseteq> set ''0123456789''
         then Some (round_ratio (foldl (\<lambda>n c. 10 * n + digit_value c) 0 (whole @ frac))
                      (10 ^ length frac))
         else None)"

definition sample_env :: "int \<Rightarrow> nat option \<Rightarrow> string \<Rightarrow> os_env" where
  "sample_env status out_size probe_text =
     \<lparr>ffmpeg_path = ''ffmpeg.exe'',
      ffprobe_path = Some ''ffprobe.exe'',
      path_exists = (\<lambda>p. True),
      suffix = sample_suffix,
      stem = (\<lambda>p. take (length p - length (sample_suffix p)) p),
      parent = (\<lambda>p. ''.''),
      join_path = (\<lambda>d n. if d = ''.'' then n else d @ [CHR 0x5C] @ n),
      mkdir = (\<lambda>d. True),
      popen = (\<lambda>cmd. Some status),
      getsize = (\<lambda>p. out_size),
      run_probe = (\<lambda>cmd. Some probe_text),
      float_of_str = sample_float\<rparr>"

subsection \<open>Facts about the string functions\<close>

lemma digit_char_mem: "n < 10 \<Longrightarrow> digit_char n \<in> set ''0123456789''"
  unfolding digit_char_def by (rule nth_mem) simp

lemma digit_char_inj: "n < 10 \<Longrightarrow> m < 10 \<Longrightarrow> digit_char n = digit_char m \<Longrightarrow> n = m"
proof -
  assume "n < 10" "m < 10" "digit_char n = digit_char m"
  moreover have "distinct ''0123456789''" by simp
  ultimately show "n = m"
    unfolding digit_char_def by (simp add: nth_eq_iff_index_eq)
qed

lemma digits_set: "set (digits n) \<subseteq> set ''0123456789''"
proof (induction n rule: digits.induct)
  case (1 n)
  show ?case
  proof (cases "n < 10")
    case True
    then show ?thesis using digit_char_mem [of n] by (subst digits.simps) simp
  next
    case False
    have "n mod 10 < 10" by simp
    from digit_char_mem [OF this] 1 [OF False] False show ?thesis
      by (subst digits.simps) simp
  qed
qed

lemma digits_nonempty: "digits n \<noteq> []"
  by (subst digits.simps) simp

lemma digits_length: "10 \<le> n \<Longrightarrow> 2 \<le> length (digits n)"
proof -
  assume "10 \<le> n"
  then have "digits n = digits (n div 10) @ [digit_char (n mod 10)]"
    by (subst digits.simps) simp
  moreover have "1 \<le> length (digits (n div 10))"
    using digits_nonempty [of "n div 10"] by (cases "digits (n div 10)") simp_all
  ultimately show ?thesis by simp
qed

lemma digits_inj: "digits n = digits m \<Longrightarrow> n = m"
proof (induction n arbitrary: m rule: digits.induct)
  case (1 n)
  show ?case
  proof (cases "n < 10")
    case True
    then have dn: "digits n = [digit_char n]" by (subst digits.simps) simp
    have "m < 10"
    proof (rule ccontr)
      assume "\<not> m < 10"
      then have "2 \<le> length (digits m)" using digits_length [of m] by simp
      with dn 1(2) show False by simp
    qed
    then have "digits m = [digit_char m]" by (subst digits.simps) simp
    with dn 1(2) True \<open>m < 10\<close> show ?thesis using digit_char_inj by simp
  next
    case False
    then have dn: "digits n = digits (n div 10) @ [digit_char (n mod 10)]"
      by (subst digits.simps) simp
    have "\<not> m < 10"
    proof
      assume "m < 10"
      then have "digits m = [digit_char m]" by (subst digits.simps) simp
      moreover have "2 \<le> length (digits n)" using False digits_length [of n] by simp
      ultimately show False using 1(2) by simp
    qed
    then have dm: "digits m = digits (m div 10) @ [digit_char (m mod 10)]"
      by (subst digits.simps) simp
    from dn dm 1(2) have a: "digits (n div 10) = digits (m div 10)"
      and b: "digit_char (n mod 10) = digit_char (m mod 10)" by simp_all
    from 1(1) [OF False a] have "n div 10 = m div 10" .
    moreover from b have "n mod 10 = m mod 10" using digit_char_inj [of "n mod 10" "m mod 10"] by simp
    ultimately show ?thesis by (metis div_mult_mod_eq)
  qed
qed


lemma digits_mem: "c \<in> set (digits n) \<Longrightarrow> c \<in> set ''0123456789''"
  using digits_set [of n] by (rule subsetD)

lemma digits_no_minus: "hd (digits n) \<noteq> CHR ''-''"
proof
  assume h: "hd (digits n) = CHR ''-''"
  have "hd (digits n) \<in> set (digits n)" using digits_nonempty by simp
  then have "hd (digits n) \<in> set ''0123456789''" by (rule digits_mem)
  with h have "CHR ''-'' \<in> set ''0123456789''" by simp
  then show False by simp
qed

lemma str_int_neg: "hd (str_int i) = CHR ''-'' \<longleftrightarrow> i < 0"
proof (cases "i < 0")
  case True
  then show ?thesis by (simp add: str_int_def)
next
  case False
  then have "str_int i = digits (nat i)" by (simp add: str_int_def)
  with digits_no_minus [of "nat i"] False show ?thesis by (simp only:)
qed

lemma str_int_inj: "str_int a = str_int b \<Longrightarrow> a = b"
proof -
  assume eq: "str_int a = str_int b"
  from eq have sgn: "a < 0 \<longleftrightarrow> b < 0" using str_int_neg [of a] str_int_neg [of b] by (simp only:)
  show "a = b"
  proof (cases "a < 0")
    case True
    with sgn eq have "digits (nat (- a)) = digits (nat (- b))" by (simp add: str_int_def)
    then have "nat (- a) = nat (- b)" by (rule digits_inj)
    with True sgn show ?thesis by simp
  next
    case False
    with sgn eq have "digits (nat a) = digits (nat b)" by (simp add: str_int_def)
    then have "nat a = nat b" by (rule digits_inj)
    with False sgn show ?thesis by simp
  qed
qed


lemma str_int_not_option:
  assumes "c \<notin> set ''0123456789''"
  shows "str_int i \<noteq> CHR ''-'' # c # rest"
proof
  assume e: "str_int i = CHR ''-'' # c # rest"
  then have "hd (str_int i) = CHR ''-''" by simp
  then have "i < 0" by (simp only: str_int_neg)
  with e have "digits (nat (- i)) = c # rest" by (simp add: str_int_def)
  then have "c \<in> set (digits (nat (- i)))" by simp
  then have "c \<in> set ''0123456789''" by (rule digits_mem)
  with assms show False by (rule notE)
qed

lemma str_int_nonempty: "str_int i \<noteq> []"
  by (simp add: str_int_def digits_nonempty)

lemma str_int_values:
  "str_int 0 = ''0''" "str_int 1 = ''1''" "str_int 2 = ''2''" "str_int 5 = ''5''"
  "str_int 9 = ''9''" "str_int 31 = ''31''" "str_int 100 = ''100''" "str_int (- 1) = ''-1''"
  by code_simp+

lemma join_Cons: "join sep (x # xs) = x @ (if xs = [] then [] else sep @ join sep xs)"
  by (cases xs) simp_all

lemma join_Cons_inject: "join sep (x # xs) = join sep (y # xs) \<longleftrightarrow> x = y"
  by (simp add: join_Cons)

lemma lower_samples:
  "lower ''.jpg'' = ''.jpg''" "lower ''.jpeg'' = ''.jpeg''" "lower ''.png'' = ''.png''"
  "lower ''.webp'' = ''.webp''" "lower ''.JPG'' = ''.jpg''" "lower ''.gif'' = ''.gif''"
  "lower ''.mp4'' = ''.mp4''" "lower ''.bmp'' = ''.bmp''" "lower ''.mp3'' = ''.mp3''"
  "lower ''.avi'' = ''.avi''"
  by code_simp+

subsection \<open>Facts about the argument builders\<close>

lemma image_vf_head:
  assumes "vf = image_scale_filters opts @ extra" "set extra \<subseteq> {''format=yuvj420p''}" "vf \<noteq> []"
  shows "join '','' vf \<noteq> [] \<and> hd (join '','' vf) \<noteq> CHR ''-''"
proof (cases "image_scale_filters opts")
  case Nil
  with assms obtain rest where "vf = ''format=yuvj420p'' # rest"
    by (cases extra) auto
  then show ?thesis by (simp add: join_Cons)
next
  case (Cons a list)
  then have "\<exists>t. a = CHR ''s'' # t"
    by (auto simp: image_scale_filters_def split: if_splits)
  then obtain t where "a = CHR ''s'' # t" ..
  with Cons assms(1) show ?thesis by (simp add: join_Cons)
qed

lemma not_dash_neq: "s \<noteq> [] \<and> hd s \<noteq> CHR ''-'' \<Longrightarrow> s \<noteq> CHR ''-'' # t"
  by auto

lemma build_image_opts_no_seek:
  "''-vframes'' \<notin> set (build_image_opts ext opts) \<and> ''-ss'' \<notin> set (build_image_opts ext opts)"
proof -
  have d: "CHR ''v'' \<notin> set ''0123456789''" "CHR ''s'' \<notin> set ''0123456789''" by simp_all
  have n1: "str_int i \<noteq> ''-vframes''" for i by (rule str_int_not_option [OF d(1)])
  have n2: "str_int i \<noteq> ''-ss''" for i by (rule str_int_not_option [OF d(2)])
  have v: "join '','' vf \<noteq> ''-vframes'' \<and> join '','' vf \<noteq> ''-ss''"
    if "vf = image_scale_filters opts @ extra" "set extra \<subseteq> {''format=yuvj420p''}" "vf \<noteq> []"
    for vf extra
    using not_dash_neq [OF image_vf_head [OF that]] by blast
  have v1: "image_scale_filters opts \<noteq> [] \<Longrightarrow>
      join '','' (image_scale_filters opts) \<noteq> ''-vframes'' \<and> join '','' (image_scale_filters opts) \<noteq> ''-ss''"
    using v [of "image_scale_filters opts" "[]"] by simp
  have v2: "join '','' (image_scale_filters opts @ [''format=yuvj420p'']) \<noteq> ''-vframes''
     \<and> join '','' (image_scale_filters opts @ [''format=yuvj420p'']) \<noteq> ''-ss''"
    using v [of "image_scale_filters opts @ [''format=yuvj420p'']" "[''format=yuvj420p'']"] by simp
  show ?thesis
    using n1 n2 n1 [symmetric] n2 [symmetric] v1 v2
    by (auto simp: build_image_opts_def Let_def)
qed

lemma lower_char_idem: "lower_char (lower_char c) = lower_char c"
  by (simp add: lower_char_def)

lemma lower_idem: "lower (lower s) = lower s"
  by (simp add: lower_def lower_char_idem)

lemma build_filter_shape:
  "build_filter opts = [] \<or> (\<exists>c t. c \<in> {CHR ''s'', CHR ''f''} \<and> build_filter opts = [''-vf'', c # t])"
proof (cases "scale_filters opts")
  case Nil
  then show ?thesis
    by (auto simp: build_filter_def fps_filters_def split: option.splits)
next
  case (Cons a list)
  then have "\<exists>t. a = CHR ''s'' # t"
    by (auto simp: scale_filters_def Let_def split: if_splits)
  then obtain t where "a = CHR ''s'' # t" ..
  with Cons show ?thesis by (simp add: build_filter_def join_Cons)
qed

lemma build_filter_no_crf: "''-crf'' \<notin> set (build_filter opts)"
  using build_filter_shape [of opts] by auto

lemma video_tail_crf: "quality opts = Some q \<Longrightarrow> \<exists>rest. video_tail opts = [''-crf'', str_int q] @ rest"
  by (simp add: video_tail_def)

lemma build_video_opts_crf:
  assumes "quality opts = Some q" "lower ext \<in> VIDEO_EXTS"
  shows "sublist [''-crf'', str_int q] (build_video_opts ext opts)"
proof -
  from assms(2) have ng: "lower ext \<noteq> ''.gif''" by (auto simp: VIDEO_EXTS_def)
  from video_tail_crf [OF assms(1)] obtain rest
    where t: "video_tail opts = [''-crf'', str_int q] @ rest" ..
  have "\<exists>pre. build_video_opts ext opts = pre @ video_tail opts"
    using ng by (auto simp: build_video_opts_def Let_def split: option.splits)
  then obtain pre where "build_video_opts ext opts = pre @ [''-crf'', str_int q] @ rest"
    using t by auto
  then show ?thesis unfolding sublist_def by blast
qed

lemma sample_suffixes:
  "lower (suffix (sample_env st sz txt) ''a.mp4'') = ''.mp4''"
  "lower (suffix (sample_env st sz txt) ''a.gif'') = ''.gif''"
  "lower (suffix (sample_env st sz txt) ''a.png'') = ''.png''"
  "lower (suffix (sample_env st sz txt) ''a.jpg'') = ''.jpg''"
  "lower (suffix (sample_env st sz txt) ''b.avi'') = ''.avi''"
  "lower (suffix (sample_env st sz txt) ''a_audio.mp3'') = ''.mp3''"
  by (simp_all add: sample_env_def sample_suffix_def lower_def lower_char_def)

lemma codec_map_gif: "map_of codec_map e = None \<Longrightarrow> e \<noteq> ''.gif''"
  by (auto simp: codec_map_def)

lemma str_int_minus_one: "str_int i = ''-1'' \<longleftrightarrow> i = - 1"
  using str_int_inj [of i "- 1"] by (auto simp: str_int_values)

lemma sample_bitrates:
  "str_int 3686 = ''3686''" "str_int 3571 = ''3571''" "str_int 3573 = ''3573''"
  by (simp_all add: str_int_def digits.simps digit_char_def)

subsection \<open>Facts about the float operations and the sample world\<close>

lemma round_ratio_not_nan: "round_ratio p q \<noteq> NaN"
  by (simp add: round_ratio_def Let_def)

lemma round_scaled_not_nan: "round_scaled p q s \<noteq> NaN"
  by (simp add: round_scaled_def round_ratio_not_nan)

lemma point_nine_value: "point_nine = Fin 8106479329266893 (- 53)"
  by code_simp

lemma float_of_int_cases:
  "float_of_int n = Inl OverflowError \<or> (\<exists>m e. float_of_int n = Inr (Fin m e))"
  by (cases "round_ratio n 1") (simp_all add: float_of_int_def)

lemma int_of_float_cases:
  "x \<noteq> NaN \<Longrightarrow> int_of_float x = Inl OverflowError \<or> (\<exists>b. int_of_float x = Inr b)"
  by (cases x) simp_all

lemma fmul_point_nine_not_nan: "x \<noteq> NaN \<Longrightarrow> fmul x point_nine \<noteq> NaN"
  by (cases x) (simp_all add: point_nine_value round_scaled_not_nan)

lemma int_of_scaled_product:
  "int_of_float (fmul (round_scaled p q s) point_nine) = Inl OverflowError
   \<or> (\<exists>b. int_of_float (fmul (round_scaled p q s) point_nine) = Inr b)"
  by (rule int_of_float_cases [OF fmul_point_nine_not_nan [OF round_scaled_not_nan]])

lemma compress_cmd:
  assumes "lower (suffix E output) = ''.mp4''" "lower (suffix E input_file) \<notin> IMAGE_EXTS"
  shows "convert_cmd E input_file output (compress_opts b opts)
           = [ffmpeg_path E, ''-i'', input_file, ''-c:v'', ''libx264'',
              ''-b:v'', str_int (b div 1024) @ ''k'', ''-preset'', ''slow'',
              ''-c:a'', ''aac'', ''-b:a'', ''128k'', output]"
proof -
  have v: "''.mp4'' \<in> VIDEO_EXTS" by (simp add: VIDEO_EXTS_def)
  have f: "build_filter (compress_opts b opts) = []"
    by (simp add: build_filter_def scale_filters_def fps_filters_def compress_opts_def
          default_options_def)
  have t: "video_tail (compress_opts b opts)
             = [''-b:v'', str_int (b div 1024) @ ''k'', ''-preset'', ''slow'',
                ''-c:a'', ''aac'', ''-b:a'', ''128k'']"
    by (simp add: video_tail_def compress_opts_def default_options_def)
  have c: "map_of codec_map ''.mp4'' = Some ''libx264''" by (simp add: codec_map_def)
  have cd: "\<not> truthy_str (codec (compress_opts b opts))"
    by (simp add: compress_opts_def default_options_def)
  have b: "build_video_opts ''.mp4'' (compress_opts b opts)
             = [''-c:v'', ''libx264'', ''-b:v'', str_int (b div 1024) @ ''k'', ''-preset'', ''slow'',
                ''-c:a'', ''aac'', ''-b:a'', ''128k'']"
    by (simp add: build_video_opts_def Let_def f t c cd lower_samples)
  show ?thesis using assms v by (simp add: convert_cmd_def Let_def b)
qed

lemma sample_durations:
  "sample_float ''100.000000'' = Some (Fin 7036874417766400 (- 46))"
  "sample_float ''576.000000'' = Some (Fin 5066549580791808 (- 43))"
  "sample_float ''0.000000'' = Some (Fin 0 0)"
  "sample_float ''N/A'' = None"
  by code_simp+

lemma probe_samples:
  "get_info (sample_env 0 (Some 5) '''') ''a.mp4'' = []"
  "get_info (sample_env 0 (Some 5) ''width=1920'') ''a.mp4'' = [(''width'', ''1920'')]"
  "get_info (sample_env 0 (Some 5) ''duration=0.000000'') ''a.mp4'' = [(''duration'', ''0.000000'')]"
  "get_info (sample_env 0 (Some 5) ''duration=100.000000'') ''a.mp4'' = [(''duration'', ''100.000000'')]"
  "get_info (sample_env 0 (Some 5) ''duration=576.000000'') ''a.mp4'' = [(''duration'', ''576.000000'')]"
  "get_info (sample_env 0 (Some 5) ''duration=N/A'') ''a.mp4'' = [(''duration'', ''N/A'')]"
  by (simp_all add: get_info_def sample_env_def)

lemma sample_bits:
  "target_bits_safe 50 (Fin 7036874417766400 (- 46)) = Inr 3774873"
  "target_bits_safe 305 (Fin 5066549580791808 (- 43)) = Inr 3997695"
  "target_bits_safe 50 (Fin 100 0) = Inr 3774873"
  "target_bits_safe 305 (Fin 576 0) = Inr 3997695"
  by code_simp+

lemma sample_kbit: "(3774873::int) div 1024 = 3686" "(3997695::int) div 1024 = 3903"
  by simp_all

lemma sample_bitrates2: "str_int 3903 = ''3903''"
  by (simp add: str_int_def digits.simps digit_char_def)

lemma flags_of_build_filter:
  "flags_of (build_filter opts @ rest) = (if build_filter opts = [] then [] else [''-vf'']) @ flags_of rest"
  using build_filter_shape [of opts] by auto

lemma flags_of_video_tail:
  assumes "extra_args opts = None"
  shows "flags_of (video_tail opts)
           = (case quality opts of
                Some q \<Rightarrow> [''-crf'']
              | None \<Rightarrow> (if truthy_str (bitrate opts) then [''-b:v''] else []))
             @ (if truthy_str (preset opts) then [''-preset''] else [])
             @ [''-c:a'', ''-b:a'']"
  using assms
  by (cases "quality opts"; cases "bitrate opts"; cases "preset opts")
     (simp_all add: video_tail_def)

section \<open>The claims\<close>

subsection \<open>C5: image quality mapping\<close>

text \<open>
  Claim C5. For every integer quality, \<open>_build_image_opts\<close> emits as its first two arguments
  the quality flag of the target format: for \<open>.jpg\<close>/\<open>.jpeg\<close> the value \<open>-q:v\<close> with the
  quality clamped into \<open>[2, 31]\<close>; for \<open>.png\<close> the value \<open>-compression_level\<close> with the quality
  floor-divided by 3 and clamped into \<open>[0, 9]\<close>; for \<open>.webp\<close> the value \<open>-q:v\<close> with the quality
  clamped into \<open>[1, 100]\<close>. An absent quality counts as 2. The extension is compared in
  lower case.
\<close>

theorem image_quality_mapping:
  assumes "q = (case quality opts of None \<Rightarrow> 2 | Some v \<Rightarrow> v)"
  shows "(lower ext \<in> {''.jpg'', ''.jpeg''} \<longrightarrow>
            take 2 (build_image_opts ext opts) = [''-q:v'', str_int (min (max q 2) 31)])
       \<and> (lower ext = ''.png'' \<longrightarrow>
            take 2 (build_image_opts ext opts)
              = [''-compression_level'', str_int (min (max (q div 3) 0) 9)])
       \<and> (lower ext = ''.webp'' \<longrightarrow>
            take 2 (build_image_opts ext opts) = [''-q:v'', str_int (min (max q 1) 100)])
       \<and> 2 \<le> min (max q 2) 31 \<and> min (max q 2) 31 \<le> 31
       \<and> 0 \<le> min (max (q div 3) 0) 9 \<and> min (max (q div 3) 0) 9 \<le> 9
       \<and> 1 \<le> min (max q 1) 100 \<and> min (max q 1) 100 \<le> 100"
  using assms by (auto simp: build_image_opts_def Let_def)

text \<open>
  The instances the claim names: quality 0 for JPEG gives 2; quality 200 gives 31, 9 and
  100; an absent quality gives 2.
\<close>

theorem image_quality_mapping_witness:
  "take 2 (build_image_opts ''.jpg'' (default_options\<lparr>quality := Some 0\<rparr>)) = [''-q:v'', ''2'']
   \<and> take 2 (build_image_opts ''.jpeg'' (default_options\<lparr>quality := Some 200\<rparr>)) = [''-q:v'', ''31'']
   \<and> take 2 (build_image_opts ''.png'' (default_options\<lparr>quality := Some 200\<rparr>))
        = [''-compression_level'', ''9'']
   \<and> take 2 (build_image_opts ''.webp'' (default_options\<lparr>quality := Some 200\<rparr>)) = [''-q:v'', ''100'']
   \<and> take 2 (build_image_opts ''.JPG'' default_options) = [''-q:v'', ''2'']"
  using image_quality_mapping [of 0 "default_options\<lparr>quality := Some 0\<rparr>" "''.jpg''"]
        image_quality_mapping [of 200 "default_options\<lparr>quality := Some 200\<rparr>" "''.jpeg''"]
        image_quality_mapping [of 200 "default_options\<lparr>quality := Some 200\<rparr>" "''.png''"]
        image_quality_mapping [of 200 "default_options\<lparr>quality := Some 200\<rparr>" "''.webp''"]
        image_quality_mapping [of 2 "default_options" "''.JPG''"]
  by (simp add: lower_samples str_int_values default_options_def)

subsection \<open>C3: the filter flags of the GIF path\<close>

text \<open>
  Claim C3 says that GIF output without a codec override, with a width and a frame rate
  set, carries exactly one \<open>-vf\<close> flag, whose value is the chain of fps, scale and the
  palettegen/paletteuse pair. The code does build that chain, but \<open>_build_filter\<close> has
  already put a \<open>-vf\<close> of its own in front of it: with the options of the menu entry
  "video to GIF" (width 480, 15 frames per second, quality 10) the argument list holds two
  \<open>-vf\<close> flags.
\<close>

theorem gif_emits_two_filter_flags:
  "build_video_opts ''.gif'' (default_options\<lparr>width := Some 480, fps := Some 15, quality := Some 10\<rparr>)
     = [''-vf'', ''scale=480:-1,fps=15'',
        ''-vf'', ''fps=15,scale=480:-1:flags=lanczos,split[s0][s1];[s0]palettegen=max_colors=128[p];[s1][p]paletteuse'',
        ''-loop'', ''0'']
   \<and> length (filter (\<lambda>a. a = ''-vf'')
         (build_video_opts ''.gif''
            (default_options\<lparr>width := Some 480, fps := Some 15, quality := Some 10\<rparr>))) = 2"
  by code_simp

subsection \<open>C1: when \<open>convert\<close> reports success\<close>

text \<open>
  Claim C1, as amended. \<open>convert\<close> returns \<open>True\<close> exactly when the input file exists, the
  engine process could be run and exited with status zero, and \<open>os.path.getsize\<close> of the
  output file succeeds afterwards, that is, the output file exists. A zero status with a
  missing output file is a failure (the \<open>OSError\<close> is caught). The size itself is only
  printed: a zero status with an empty output file is a success.
\<close>

theorem convert_success_iff:
  "fst (convert E input_file output_file opts0) \<longleftrightarrow>
     path_exists E input_file
     \<and> popen E (convert_cmd E input_file output_file
                  (case opts0 of None \<Rightarrow> default_options | Some opts \<Rightarrow> opts)) = Some 0
     \<and> getsize E output_file \<noteq> None"
  by (simp add: convert_def Let_def split: option.splits)

text \<open>
  Four runs of the sample world: a non-empty output and an empty output after status zero
  succeed; a missing output after status zero, and status one, fail.
\<close>

theorem convert_success_iff_witness:
  "fst (convert (sample_env 0 (Some 7) '''') ''a.mp4'' ''b.avi'' None)
   \<and> fst (convert (sample_env 0 (Some 0) '''') ''a.mp4'' ''b.avi'' None)
   \<and> \<not> fst (convert (sample_env 0 None '''') ''a.mp4'' ''b.avi'' None)
   \<and> \<not> fst (convert (sample_env 1 (Some 7) '''') ''a.mp4'' ''b.avi'' None)"
  using convert_success_iff [of "sample_env 0 (Some 7) ''''" "''a.mp4''" "''b.avi''" None]
        convert_success_iff [of "sample_env 0 (Some 0) ''''" "''a.mp4''" "''b.avi''" None]
        convert_success_iff [of "sample_env 0 None ''''" "''a.mp4''" "''b.avi''" None]
        convert_success_iff [of "sample_env 1 (Some 7) ''''" "''a.mp4''" "''b.avi''" None]
  by (simp add: sample_env_def)

text \<open>
  Claim C1 as stated asks for a non-empty output file. In the sample world the engine exits
  with status zero and leaves an output file of zero bytes, and \<open>convert\<close> returns \<open>True\<close>.
\<close>

theorem convert_empty_output_counterexample:
  "popen (sample_env 0 (Some 0) '''')
     (convert_cmd (sample_env 0 (Some 0) '''') ''a.mp4'' ''b.avi'' default_options) = Some 0
   \<and> getsize (sample_env 0 (Some 0) '''') ''b.avi'' = Some 0
   \<and> fst (convert (sample_env 0 (Some 0) '''') ''a.mp4'' ''b.avi'' None) = True"
  by (simp add: sample_env_def convert_def Let_def)

subsection \<open>C7: video-to-image extraction\<close>

text \<open>
  Claim C7, as amended. When the input extension is classified as video (in \<open>VIDEO_EXTS\<close>,
  or \<open>.gif\<close>) and the output extension is an image extension other than \<open>.gif\<close>, the
  command is the engine, \<open>-i\<close>, the input, \<open>-ss 00:00:01 -vframes 1\<close>, the image arguments
  for the output format and the output file; between the input and the output file the
  flags \<open>-vframes\<close> and \<open>-ss\<close> occur exactly once each.
\<close>

theorem video_to_image_extraction:
  assumes "lower (suffix E input_file) \<in> VIDEO_EXTS \<or> lower (suffix E input_file) = ''.gif''"
    and "lower (suffix E output_file) \<in> IMAGE_EXTS"
    and "lower (suffix E output_file) \<noteq> ''.gif''"
  shows "convert_cmd E input_file output_file opts
           = [ffmpeg_path E, ''-i'', input_file, ''-ss'', ''00:00:01'', ''-vframes'', ''1'']
             @ build_image_opts (lower (suffix E output_file)) opts
             @ [output_file]
         \<and> count_list (butlast (drop 3 (convert_cmd E input_file output_file opts))) ''-vframes'' = 1
         \<and> count_list (butlast (drop 3 (convert_cmd E input_file output_file opts))) ''-ss'' = 1"
proof -
  from assms(2,3) have nv: "lower (suffix E output_file) \<notin> VIDEO_EXTS"
    by (auto simp: IMAGE_EXTS_def VIDEO_EXTS_def)
  have a: "convert_cmd E input_file output_file opts
           = [ffmpeg_path E, ''-i'', input_file, ''-ss'', ''00:00:01'', ''-vframes'', ''1'']
             @ build_image_opts (lower (suffix E output_file)) opts
             @ [output_file]"
    using assms(1,3) nv by (auto simp: convert_cmd_def Let_def)
  have z: "count_list (build_image_opts (lower (suffix E output_file)) opts) ''-vframes'' = 0"
      "count_list (build_image_opts (lower (suffix E output_file)) opts) ''-ss'' = 0"
    using build_image_opts_no_seek [of "lower (suffix E output_file)" opts]
    by (simp_all add: count_list_0_iff)
  have b: "butlast (drop 3 (convert_cmd E input_file output_file opts))
            = [''-ss'', ''00:00:01'', ''-vframes'', ''1'']
              @ build_image_opts (lower (suffix E output_file)) opts"
    by (simp add: a butlast_append)
  show ?thesis using a z by (simp add: b)
qed

text \<open>A frame of \<open>a.mp4\<close> extracted to \<open>a.jpg\<close> with quality 200.\<close>

theorem video_to_image_extraction_witness:
  "convert_cmd (sample_env 0 (Some 5) '''') ''a.mp4'' ''a.jpg''
       (default_options\<lparr>quality := Some 200\<rparr>)
     = [''ffmpeg.exe'', ''-i'', ''a.mp4'', ''-ss'', ''00:00:01'', ''-vframes'', ''1'',
        ''-q:v'', ''31'', ''-vf'', ''format=yuvj420p'', ''-y'', ''a.jpg'']"
proof -
  have h1: "lower (suffix (sample_env 0 (Some 5) '''') ''a.mp4'') \<in> VIDEO_EXTS
            \<or> lower (suffix (sample_env 0 (Some 5) '''') ''a.mp4'') = ''.gif''"
    by (simp add: sample_suffixes VIDEO_EXTS_def)
  have h2: "lower (suffix (sample_env 0 (Some 5) '''') ''a.jpg'') \<in> IMAGE_EXTS"
    by (simp add: sample_suffixes IMAGE_EXTS_def)
  have h3: "lower (suffix (sample_env 0 (Some 5) '''') ''a.jpg'') \<noteq> ''.gif''"
    by (simp add: sample_suffixes)
  have i: "build_image_opts ''.jpg'' (default_options\<lparr>quality := Some 200\<rparr>)
            = [''-q:v'', ''31'', ''-vf'', ''format=yuvj420p'', ''-y'']"
    by (simp add: build_image_opts_def image_scale_filters_def default_options_def
          lower_samples str_int_values)
  have f: "ffmpeg_path (sample_env 0 (Some 5) '''') = ''ffmpeg.exe''"
    by (simp add: sample_env_def)
  from video_to_image_extraction [OF h1 h2 h3, of "default_options\<lparr>quality := Some 200\<rparr>"] i f
  show ?thesis by (simp add: sample_suffixes)
qed

text \<open>
  Claim C7 as stated covers every image extension. \<open>.gif\<close> is in \<open>IMAGE_EXTS\<close>, but
  \<open>convert\<close> tests \<open>output_ext == '.gif'\<close> for the video path first: a video converted to
  \<open>a.gif\<close> gets the palette filter of the video builder, and neither \<open>-ss\<close> nor \<open>-vframes\<close>.
\<close>

theorem video_to_gif_counterexample:
  "lower (suffix (sample_env 0 (Some 5) '''') ''a.mp4'') \<in> VIDEO_EXTS
   \<and> lower (suffix (sample_env 0 (Some 5) '''') ''a.gif'') \<in> IMAGE_EXTS
   \<and> convert_cmd (sample_env 0 (Some 5) '''') ''a.mp4'' ''a.gif'' default_options
       = [''ffmpeg.exe'', ''-i'', ''a.mp4'', ''-vf'',
          ''fps=30,scale=480:-1:flags=lanczos,split[s0][s1];[s0]palettegen=max_colors=128[p];[s1][p]paletteuse'',
          ''-loop'', ''0'', ''a.gif'']
   \<and> ''-vframes'' \<notin> set (convert_cmd (sample_env 0 (Some 5) '''') ''a.mp4'' ''a.gif'' default_options)
   \<and> ''-ss'' \<notin> set (convert_cmd (sample_env 0 (Some 5) '''') ''a.mp4'' ''a.gif'' default_options)"
  by code_simp

subsection \<open>C8: probe failure in size-targeted compression\<close>

text \<open>
  What the code does reach: with an empty info dict, or a duration that is zero,
  \<open>compress_media\<close> returns \<open>False\<close> and hands no command to the engine; and when the key
  \<open>duration\<close> is absent or empty and \<open>format.duration\<close> is absent, the duration is
  \<open>float(0)\<close>.
\<close>

lemma compress_media_zero_duration:
  "(get_info E input_file = [] \<longrightarrow>
      compress_media E input_file target_size_mb opts0 = Inr (False, []))
   \<and> (probe_duration E (get_info E input_file) = Inr d \<and> float_is_zero d \<longrightarrow>
      compress_media E input_file target_size_mb opts0 = Inr (False, []))
   \<and> (map_of info ''duration'' \<in> {None, Some []} \<and> map_of info ''format.duration'' = None \<longrightarrow>
      probe_duration E info = Inr (Fin 0 0))"
  by (auto simp: compress_media_def probe_duration_def Let_def)

text \<open>
  Claim C8 says that a probe without a duration makes \<open>compress_media\<close> report the failure
  and return \<open>False\<close>. The probe's default writer prints a duration it does not know as
  \<open>duration=N/A\<close>. Then the key is present, \<open>float('N/A')\<close> raises \<open>ValueError\<close>, nothing
  catches it, and \<open>compress_media\<close> is left by the exception before its test
  \<open>duration == 0\<close>: it neither reports nor returns \<open>False\<close>.
\<close>

theorem compress_media_unreadable_duration:
  "get_info (sample_env 0 (Some 5) ''duration=N/A'') ''a.mp4'' = [(''duration'', ''N/A'')]
   \<and> float_of_str (sample_env 0 (Some 5) ''duration=N/A'') ''N/A'' = None
   \<and> compress_media (sample_env 0 (Some 5) ''duration=N/A'') ''a.mp4'' 50 None = Inl ValueError"
  by (simp add: probe_samples compress_media_def probe_duration_def Let_def sample_durations)
     (simp add: sample_env_def sample_durations)

subsection \<open>C9: output extensions that are neither video nor image\<close>

text \<open>
  Claim C9. When the output extension is in neither \<open>VIDEO_EXTS\<close> nor \<open>IMAGE_EXTS\<close> (every
  audio extension, for one), \<open>convert\<close> builds the command with \<open>_build_image_opts\<close>: the
  engine, \<open>-i\<close> and the input, then \<open>-ss 00:00:01 -vframes 1\<close> when the input is video, then
  the image arguments, which for such an extension are the optional scale filter and the
  overwrite flag \<open>-y\<close>, then the output file. That command is the one handed to \<open>Popen\<close>.
\<close>

theorem other_output_uses_image_builder:
  assumes "lower (suffix E output_file) \<notin> VIDEO_EXTS" "lower (suffix E output_file) \<notin> IMAGE_EXTS"
  shows "convert_cmd E input_file output_file opts
           = [ffmpeg_path E, ''-i'', input_file]
             @ (if lower (suffix E input_file) \<in> VIDEO_EXTS \<or> lower (suffix E input_file) = ''.gif''
                then [''-ss'', ''00:00:01'', ''-vframes'', ''1''] else [])
             @ build_image_opts (lower (suffix E output_file)) opts
             @ [output_file]
         \<and> build_image_opts (lower (suffix E output_file)) opts
             = (if image_scale_filters opts \<noteq> []
                then [''-vf'', join '','' (image_scale_filters opts)] else []) @ [''-y'']
         \<and> (path_exists E input_file \<longrightarrow>
              snd (convert E input_file output_file (Some opts))
                = [convert_cmd E input_file output_file opts])"
proof -
  from assms(2) have gif: "lower (suffix E output_file) \<noteq> ''.gif''"
    by (auto simp: IMAGE_EXTS_def)
  from assms(2) have ext: "lower (suffix E output_file) \<notin> {''.jpg'', ''.jpeg'', ''.png'', ''.webp''}"
    by (auto simp: IMAGE_EXTS_def)
  have a: "convert_cmd E input_file output_file opts
           = [ffmpeg_path E, ''-i'', input_file]
             @ (if lower (suffix E input_file) \<in> VIDEO_EXTS \<or> lower (suffix E input_file) = ''.gif''
                then [''-ss'', ''00:00:01'', ''-vframes'', ''1''] else [])
             @ build_image_opts (lower (suffix E output_file)) opts
             @ [output_file]"
    using assms(1) gif by (simp add: convert_cmd_def Let_def)
  have b: "build_image_opts (lower (suffix E output_file)) opts
             = (if image_scale_filters opts \<noteq> []
                then [''-vf'', join '','' (image_scale_filters opts)] else []) @ [''-y'']"
    using ext by (simp add: build_image_opts_def Let_def lower_idem)
  have c: "path_exists E input_file \<longrightarrow>
              snd (convert E input_file output_file (Some opts))
                = [convert_cmd E input_file output_file opts]"
    by (simp add: convert_def Let_def split: option.splits)
  from a b c show ?thesis by blast
qed

text \<open>The menu entry "extract audio": a video input and an \<open>.mp3\<close> output.\<close>

theorem other_output_uses_image_builder_witness:
  "lower (suffix (sample_env 0 (Some 5) '''') ''a_audio.mp3'') \<notin> VIDEO_EXTS
   \<and> lower (suffix (sample_env 0 (Some 5) '''') ''a_audio.mp3'') \<notin> IMAGE_EXTS
   \<and> convert_cmd (sample_env 0 (Some 5) '''') ''a.mp4'' ''a_audio.mp3'' default_options
       = [''ffmpeg.exe'', ''-i'', ''a.mp4'', ''-ss'', ''00:00:01'', ''-vframes'', ''1'', ''-y'',
          ''a_audio.mp3'']"
proof -
  have h1: "lower (suffix (sample_env 0 (Some 5) '''') ''a_audio.mp3'') \<notin> VIDEO_EXTS"
    by (simp add: sample_suffixes VIDEO_EXTS_def)
  have h2: "lower (suffix (sample_env 0 (Some 5) '''') ''a_audio.mp3'') \<notin> IMAGE_EXTS"
    by (simp add: sample_suffixes IMAGE_EXTS_def)
  have v: "lower (suffix (sample_env 0 (Some 5) '''') ''a.mp4'') \<in> VIDEO_EXTS"
    by (simp add: sample_suffixes VIDEO_EXTS_def)
  have i: "image_scale_filters default_options = []"
    by (simp add: image_scale_filters_def default_options_def)
  have f: "ffmpeg_path (sample_env 0 (Some 5) '''') = ''ffmpeg.exe''"
    by (simp add: sample_env_def)
  from other_output_uses_image_builder [OF h1 h2, of "''a.mp4''" default_options] h1 h2 v i f
  show ?thesis by simp
qed

subsection \<open>C10: image-to-video synthesis\<close>

text \<open>
  Claim C10. When the input is an image and the output is video (or \<open>.gif\<close>), the command
  is always the engine, \<open>-loop 1\<close>, \<open>-i\<close> and the input, the codec (\<open>libx264\<close> unless
  overridden), \<open>-t 5\<close>, \<open>-pix_fmt yuv420p\<close>, then the filter of \<open>_build_filter\<close>, then \<open>-crf\<close>
  with the quality only when the quality is present and not zero, then the output file.
  With quality 0 no \<open>-crf\<close> is emitted (the filter flag never is \<open>-crf\<close>), while
  \<open>_build_video_opts\<close> for a video extension emits \<open>-crf 0\<close> for the same options.
\<close>

theorem image_to_video_synthesis:
  assumes "lower (suffix E input_file) \<in> IMAGE_EXTS"
    and "lower (suffix E output_file) \<in> VIDEO_EXTS \<or> lower (suffix E output_file) = ''.gif''"
  shows "convert_cmd E input_file output_file opts
           = [ffmpeg_path E, ''-loop'', ''1'', ''-i'', input_file,
              ''-c:v'', or_str (codec opts) ''libx264'', ''-t'', ''5'', ''-pix_fmt'', ''yuv420p'']
             @ build_filter opts
             @ (case quality opts of
                  Some q \<Rightarrow> (if q \<noteq> 0 then [''-crf'', str_int q] else [])
                | None \<Rightarrow> [])
             @ [output_file]
         \<and> (quality opts = Some 0 \<longrightarrow>
              convert_cmd E input_file output_file opts
                = [ffmpeg_path E, ''-loop'', ''1'', ''-i'', input_file,
                   ''-c:v'', or_str (codec opts) ''libx264'', ''-t'', ''5'', ''-pix_fmt'', ''yuv420p'']
                  @ build_filter opts @ [output_file])
         \<and> ''-crf'' \<notin> set (build_filter opts)
         \<and> (quality opts = Some 0 \<and> lower ext \<in> VIDEO_EXTS \<longrightarrow>
              sublist [''-crf'', ''0''] (build_video_opts ext opts))"
proof -
  have a: "convert_cmd E input_file output_file opts
           = [ffmpeg_path E, ''-loop'', ''1'', ''-i'', input_file,
              ''-c:v'', or_str (codec opts) ''libx264'', ''-t'', ''5'', ''-pix_fmt'', ''yuv420p'']
             @ build_filter opts
             @ (case quality opts of
                  Some q \<Rightarrow> (if q \<noteq> 0 then [''-crf'', str_int q] else [])
                | None \<Rightarrow> [])
             @ [output_file]"
    using assms by (auto simp: convert_cmd_def Let_def str_int_values)
  have b: "quality opts = Some 0 \<and> lower ext \<in> VIDEO_EXTS \<longrightarrow>
              sublist [''-crf'', ''0''] (build_video_opts ext opts)"
    using build_video_opts_crf [of opts 0 ext] by (simp add: str_int_values)
  show ?thesis using b build_filter_no_crf [of opts] by (simp add: a)
qed

text \<open>A still image turned into \<open>a.mp4\<close> with quality 0.\<close>

theorem image_to_video_synthesis_witness:
  "convert_cmd (sample_env 0 (Some 5) '''') ''a.png'' ''a.mp4'' (default_options\<lparr>quality := Some 0\<rparr>)
     = [''ffmpeg.exe'', ''-loop'', ''1'', ''-i'', ''a.png'', ''-c:v'', ''libx264'', ''-t'', ''5'',
        ''-pix_fmt'', ''yuv420p'', ''a.mp4'']
   \<and> sublist [''-crf'', ''0''] (build_video_opts ''.mp4'' (default_options\<lparr>quality := Some 0\<rparr>))"
proof -
  have h1: "lower (suffix (sample_env 0 (Some 5) '''') ''a.png'') \<in> IMAGE_EXTS"
    by (simp add: sample_suffixes IMAGE_EXTS_def)
  have h2: "lower (suffix (sample_env 0 (Some 5) '''') ''a.mp4'') \<in> VIDEO_EXTS
            \<or> lower (suffix (sample_env 0 (Some 5) '''') ''a.mp4'') = ''.gif''"
    by (simp add: sample_suffixes VIDEO_EXTS_def)
  have v: "lower ''.mp4'' \<in> VIDEO_EXTS" by (simp add: lower_samples VIDEO_EXTS_def)
  have bf: "build_filter (default_options\<lparr>quality := Some 0\<rparr>) = []"
    by (simp add: build_filter_def scale_filters_def fps_filters_def default_options_def)
  have f: "ffmpeg_path (sample_env 0 (Some 5) '''') = ''ffmpeg.exe''"
    by (simp add: sample_env_def)
  have c: "codec (default_options\<lparr>quality := Some 0\<rparr>) = None"
    by (simp add: default_options_def)
  from image_to_video_synthesis [OF h1 h2, of "default_options\<lparr>quality := Some 0\<rparr>" "''.mp4''"]
    v bf f c
  show ?thesis by simp
qed

subsection \<open>C2: the bitrate of size-targeted compression\<close>

text \<open>
  Claim C2, as amended. For every target size \<open>mb\<close> and every positive finite probed
  duration \<open>d\<close>, \<open>compress_media\<close> computes the total bitrate as the float quotient of
  \<open>mb * 8 * 1024 * 1024\<close> by \<open>d\<close>, multiplies that whole total by the float \<open>0.9\<close> (nothing
  is subtracted for audio), truncates to an integer, and either that integer exists or
  the computation raises \<open>OverflowError\<close>. The integer, floor-divided by 1024 and written
  with the suffix \<open>k\<close>, is the video bitrate of the options, and the audio bitrate is the
  separate fixed option \<open>128k\<close>. With these options \<open>compress_media\<close> calls \<open>convert\<close>, and
  for an input that is not an image the engine receives \<open>-b:v\<close> with the computed value
  and \<open>-b:a 128k\<close>.
\<close>

theorem compress_bitrate:
  assumes "0 < m"
  shows "(float_of_int (mb * 8 * 1024 * 1024) = Inr (Fin m1 e1) \<longrightarrow>
            target_bits_safe mb (Fin m e)
              = int_of_float (fmul (round_scaled m1 m (e1 - e)) point_nine))
       \<and> (target_bits_safe mb (Fin m e) = Inl OverflowError
           \<or> (\<exists>b. target_bits_safe mb (Fin m e) = Inr b))
       \<and> bitrate (compress_opts b opts) = Some (str_int (b div 1024) @ ''k'')
       \<and> audio_bitrate (compress_opts b opts) = Some ''128k''
       \<and> (get_info E input_file \<noteq> [] \<and> probe_duration E (get_info E input_file) = Inr (Fin m e)
            \<and> target_bits_safe mb (Fin m e) = Inr b
            \<and> get_output_path E input_file ''compressed'' ''mp4'' opts = Inr output \<longrightarrow>
            compress_media E input_file mb (Some opts)
              = Inr (convert E input_file output (Some (compress_opts b opts))))
       \<and> (lower (suffix E output) = ''.mp4'' \<and> lower (suffix E input_file) \<notin> IMAGE_EXTS \<longrightarrow>
            convert_cmd E input_file output (compress_opts b opts)
              = [ffmpeg_path E, ''-i'', input_file, ''-c:v'', ''libx264'',
                 ''-b:v'', str_int (b div 1024) @ ''k'', ''-preset'', ''slow'',
                 ''-c:a'', ''aac'', ''-b:a'', ''128k'', output])"
proof -
  from assms have s: "sgn m = 1" "\<bar>m\<bar> = m" "m \<noteq> 0" by simp_all
  have a: "float_of_int (mb * 8 * 1024 * 1024) = Inr (Fin m1 e1) \<longrightarrow>
            target_bits_safe mb (Fin m e)
              = int_of_float (fmul (round_scaled m1 m (e1 - e)) point_nine)" for m1 e1
    using s by (simp add: target_bits_safe_def)
  have b: "target_bits_safe mb (Fin m e) = Inl OverflowError
           \<or> (\<exists>b. target_bits_safe mb (Fin m e) = Inr b)"
  proof -
    from float_of_int_cases [of "mb * 8 * 1024 * 1024"] show ?thesis
    proof
      assume "float_of_int (mb * 8 * 1024 * 1024) = Inl OverflowError"
      then show ?thesis by (simp add: target_bits_safe_def)
    next
      assume "\<exists>m1 e1. float_of_int (mb * 8 * 1024 * 1024) = Inr (Fin m1 e1)"
      then obtain k1 k2 where "float_of_int (mb * 8 * 1024 * 1024) = Inr (Fin k1 k2)" by blast
      with a [of k1 k2] have "target_bits_safe mb (Fin m e)
              = int_of_float (fmul (round_scaled k1 m (k2 - e)) point_nine)" by blast
      with int_of_scaled_product [of k1 m "k2 - e"] show ?thesis by simp
    qed
  qed
  have c: "bitrate (compress_opts b opts) = Some (str_int (b div 1024) @ ''k'')"
      "audio_bitrate (compress_opts b opts) = Some ''128k''"
    by (simp_all add: compress_opts_def default_options_def)
  have d: "get_info E input_file \<noteq> [] \<and> probe_duration E (get_info E input_file) = Inr (Fin m e)
            \<and> target_bits_safe mb (Fin m e) = Inr b
            \<and> get_output_path E input_file ''compressed'' ''mp4'' opts = Inr output \<longrightarrow>
            compress_media E input_file mb (Some opts)
              = Inr (convert E input_file output (Some (compress_opts b opts)))"
    using s by (simp add: compress_media_def Let_def)
  have e: "lower (suffix E output) = ''.mp4'' \<and> lower (suffix E input_file) \<notin> IMAGE_EXTS \<longrightarrow>
            convert_cmd E input_file output (compress_opts b opts)
              = [ffmpeg_path E, ''-i'', input_file, ''-c:v'', ''libx264'',
                 ''-b:v'', str_int (b div 1024) @ ''k'', ''-preset'', ''slow'',
                 ''-c:a'', ''aac'', ''-b:a'', ''128k'', output]"
    using compress_cmd [of E "output" input_file b opts] by blast
  from a [of m1 e1] b c d e show ?thesis by blast
qed

text \<open>
  The specification's own example, 50 MB over 100 seconds (4194304 bit/s in total, video
  bitrate \<open>3686k\<close>), and 305 MB over 576 seconds, where the float product is
  3997695.9999999995 and the video bitrate \<open>3903k\<close>; each with the command that reaches the
  engine.
\<close>

theorem compress_bitrate_witness:
  "(0::int) < 7036874417766400
   \<and> target_bits_safe 50 (Fin 7036874417766400 (- 46)) = Inr 3774873
   \<and> compress_media (sample_env 0 (Some 5) ''duration=100.000000'') ''a.mp4'' 50 (Some default_options)
       = Inr (True, [ [''ffmpeg.exe'', ''-i'', ''a.mp4'', ''-c:v'', ''libx264'', ''-b:v'', ''3686k'',
                      ''-preset'', ''slow'', ''-c:a'', ''aac'', ''-b:a'', ''128k'',
                      ''a_compressed.mp4''] ])
   \<and> compress_media (sample_env 0 (Some 5) ''duration=576.000000'') ''a.mp4'' 305 (Some default_options)
       = Inr (True, [ [''ffmpeg.exe'', ''-i'', ''a.mp4'', ''-c:v'', ''libx264'', ''-b:v'', ''3903k'',
                      ''-preset'', ''slow'', ''-c:a'', ''aac'', ''-b:a'', ''128k'',
                      ''a_compressed.mp4''] ])"
proof -
  let ?E = "sample_env 0 (Some 5) ''duration=100.000000''"
  let ?F = "sample_env 0 (Some 5) ''duration=576.000000''"
  have h1: "(0::int) < 7036874417766400" and h2: "(0::int) < 5066549580791808" by simp_all
  have p: "get_output_path (sample_env 0 (Some 5) ptext) ''a.mp4'' ''compressed'' ''mp4'' default_options
             = Inr ''a_compressed.mp4''" for ptext
    by (simp add: get_output_path_def sample_env_def sample_suffix_def default_options_def)
  have q1: "probe_duration ?E [(''duration'', ''100.000000'')] = Inr (Fin 7036874417766400 (- 46))"
    by (simp add: probe_duration_def sample_env_def sample_durations)
  have q2: "probe_duration ?F [(''duration'', ''576.000000'')] = Inr (Fin 5066549580791808 (- 43))"
    by (simp add: probe_duration_def sample_env_def sample_durations)
  have x: "lower (suffix (sample_env 0 (Some 5) ptext) ''a_compressed.mp4'') = ''.mp4''" for ptext
    by (simp add: sample_env_def sample_suffix_def lower_def lower_char_def)
  have y: "lower (suffix (sample_env 0 (Some 5) ptext) ''a.mp4'') \<notin> IMAGE_EXTS" for ptext
    by (simp add: sample_suffixes IMAGE_EXTS_def)
  have w: "fst (convert (sample_env 0 (Some 5) ptext) i out (Some opts))" for ptext i out opts
    by (simp add: convert_def sample_env_def Let_def)
  have z: "snd (convert (sample_env 0 (Some 5) ptext) i out (Some opts))
             = [convert_cmd (sample_env 0 (Some 5) ptext) i out opts]" for ptext i out opts
    by (simp add: convert_def sample_env_def Let_def)
  have f: "ffmpeg_path (sample_env 0 (Some 5) ptext) = ''ffmpeg.exe''" for ptext
    by (simp add: sample_env_def)
  note a = compress_bitrate [OF h1, of 50 _ _ "- 46" 3774873 default_options ?E "''a.mp4''"
              "''a_compressed.mp4''"]
  note b = compress_bitrate [OF h2, of 305 _ _ "- 43" 3997695 default_options ?F "''a.mp4''"
              "''a_compressed.mp4''"]
  have r1: "compress_media ?E ''a.mp4'' 50 (Some default_options)
              = Inr (convert ?E ''a.mp4'' ''a_compressed.mp4'' (Some (compress_opts 3774873 default_options)))"
    using a by (simp add: probe_samples q1 p sample_bits)
  have c1: "convert_cmd ?E ''a.mp4'' ''a_compressed.mp4'' (compress_opts 3774873 default_options)
              = [''ffmpeg.exe'', ''-i'', ''a.mp4'', ''-c:v'', ''libx264'', ''-b:v'', ''3686k'',
                 ''-preset'', ''slow'', ''-c:a'', ''aac'', ''-b:a'', ''128k'', ''a_compressed.mp4'']"
    using a by (simp add: x y f sample_kbit sample_bitrates)
  have r2: "compress_media ?F ''a.mp4'' 305 (Some default_options)
              = Inr (convert ?F ''a.mp4'' ''a_compressed.mp4'' (Some (compress_opts 3997695 default_options)))"
    using b by (simp add: probe_samples q2 p sample_bits)
  have c2: "convert_cmd ?F ''a.mp4'' ''a_compressed.mp4'' (compress_opts 3997695 default_options)
              = [''ffmpeg.exe'', ''-i'', ''a.mp4'', ''-c:v'', ''libx264'', ''-b:v'', ''3903k'',
                 ''-preset'', ''slow'', ''-c:a'', ''aac'', ''-b:a'', ''128k'', ''a_compressed.mp4'']"
    using b by (simp add: x y f sample_kbit sample_bitrates2)
  have e1: "convert ?E ''a.mp4'' ''a_compressed.mp4'' (Some (compress_opts 3774873 default_options))
             = (True, [convert_cmd ?E ''a.mp4'' ''a_compressed.mp4'' (compress_opts 3774873 default_options)])"
    using w [of "''duration=100.000000''"] z [of "''duration=100.000000''"]
    by (simp add: prod_eq_iff)
  have e2: "convert ?F ''a.mp4'' ''a_compressed.mp4'' (Some (compress_opts 3997695 default_options))
             = (True, [convert_cmd ?F ''a.mp4'' ''a_compressed.mp4'' (compress_opts 3997695 default_options)])"
    using w [of "''duration=576.000000''"] z [of "''duration=576.000000''"]
    by (simp add: prod_eq_iff)
  show ?thesis
    by (simp add: sample_bits r1 r2 e1 e2 c1 c2)
qed

text \<open>
  Claim C2 as stated takes 128 kbit/s off the total before the margin. For 50 MB over 100
  seconds that rule gives \<open>3571k\<close> (or \<open>3573k\<close> with 1000 bits to the kilobit); the code
  gives \<open>3686k\<close>, which is 0.9 of the whole total.
\<close>

theorem compress_bitrate_counterexample:
  "target_bits_safe 50 (Fin 100 0) = Inr 3774873
   \<and> bitrate (compress_opts 3774873 default_options) = Some ''3686k''
   \<and> spec_video_bitrate (128 * 1024) 50 (Fin 100 0) = Some ''3571k''
   \<and> spec_video_bitrate (128 * 1000) 50 (Fin 100 0) = Some ''3573k''"
proof -
  have a: "bitrate (compress_opts 3774873 default_options) = Some ''3686k''"
    by (simp add: compress_opts_def default_options_def sample_bitrates)
  have b: "spec_video_bits 131072 50 (Fin 100 0) = Inr 3656908"
      "spec_video_bits 128000 50 (Fin 100 0) = Inr 3659673"
    by code_simp+
  have c: "spec_video_bitrate 131072 50 (Fin 100 0) = Some ''3571k''"
      "spec_video_bitrate 128000 50 (Fin 100 0) = Some ''3573k''"
    by (simp_all add: spec_video_bitrate_def b sample_bitrates)
  show ?thesis by (simp add: sample_bits a c)
qed

subsection \<open>C4: quality and bitrate in the video arguments\<close>

text \<open>
  Claim C4, as amended. For every options record without \<open>extra_args\<close>, the options of the
  list built by \<open>_build_video_opts\<close> never include both \<open>-crf\<close> and \<open>-b:v\<close>. Outside the GIF
  branch (extension \<open>.gif\<close> with no codec override, which returns before either flag)
  \<open>-crf\<close> is emitted exactly when the quality is set, zero included, and \<open>-b:v\<close> exactly when
  the quality is absent and the bitrate is a non-empty string; in the GIF branch neither
  is emitted.
\<close>

theorem quality_bitrate_exclusive:
  assumes "extra_args opts = None"
  shows "\<not> (''-crf'' \<in> set (flags_of (build_video_opts ext opts))
            \<and> ''-b:v'' \<in> set (flags_of (build_video_opts ext opts)))
       \<and> (''-crf'' \<in> set (flags_of (build_video_opts ext opts)) \<longleftrightarrow>
            quality opts \<noteq> None \<and> (truthy_str (codec opts) \<or> lower ext \<noteq> ''.gif''))
       \<and> (''-b:v'' \<in> set (flags_of (build_video_opts ext opts)) \<longleftrightarrow>
            quality opts = None \<and> truthy_str (bitrate opts)
            \<and> (truthy_str (codec opts) \<or> lower ext \<noteq> ''.gif''))"
proof -
  note vt = flags_of_video_tail [OF assms]
  have shape: "(truthy_str (codec opts) \<or> lower ext \<noteq> ''.gif'')
                 \<and> (flags_of (build_video_opts ext opts)
                       = (if build_filter opts = [] then [] else [''-vf''])
                         @ [''-c:v''] @ flags_of (video_tail opts)
                     \<or> flags_of (build_video_opts ext opts)
                       = (if build_filter opts = [] then [] else [''-vf''])
                         @ flags_of (video_tail opts))
             \<or> \<not> truthy_str (codec opts) \<and> lower ext = ''.gif''
                 \<and> flags_of (build_video_opts ext opts)
                       = (if build_filter opts = [] then [] else [''-vf'']) @ [''-vf'', ''-loop'']"
  proof (cases "truthy_str (codec opts)")
    case True
    then show ?thesis by (simp add: build_video_opts_def Let_def flags_of_build_filter)
  next
    case False
    show ?thesis
    proof (cases "map_of codec_map (lower ext)")
      case None
      with False codec_map_gif [OF None] show ?thesis
        by (simp add: build_video_opts_def Let_def flags_of_build_filter)
    next
      case (Some c)
      with False show ?thesis
        by (simp add: build_video_opts_def Let_def flags_of_build_filter)
    qed
  qed
  from shape consider
      (tail) "truthy_str (codec opts) \<or> lower ext \<noteq> ''.gif''"
        "set (flags_of (build_video_opts ext opts)) - {''-vf'', ''-c:v''}
           = set (flags_of (video_tail opts)) - {''-vf'', ''-c:v''}"
    | (gif) "\<not> truthy_str (codec opts)" "lower ext = ''.gif''"
        "set (flags_of (build_video_opts ext opts)) \<subseteq> {''-vf'', ''-loop''}"
    by auto
  then have "(''-crf'' \<in> set (flags_of (build_video_opts ext opts)) \<longleftrightarrow>
            quality opts \<noteq> None \<and> (truthy_str (codec opts) \<or> lower ext \<noteq> ''.gif''))
       \<and> (''-b:v'' \<in> set (flags_of (build_video_opts ext opts)) \<longleftrightarrow>
            quality opts = None \<and> truthy_str (bitrate opts)
            \<and> (truthy_str (codec opts) \<or> lower ext \<noteq> ''.gif''))"
  proof cases
    case tail
    have "''-crf'' \<in> set (flags_of (build_video_opts ext opts)) \<longleftrightarrow>
            ''-crf'' \<in> set (flags_of (video_tail opts))"
         "''-b:v'' \<in> set (flags_of (build_video_opts ext opts)) \<longleftrightarrow>
            ''-b:v'' \<in> set (flags_of (video_tail opts))"
      using tail(2) by auto
    then show ?thesis using tail(1)
      by (cases "quality opts") (simp_all add: vt)
  next
    case gif
    have "''-crf'' \<notin> set (flags_of (build_video_opts ext opts))"
         "''-b:v'' \<notin> set (flags_of (build_video_opts ext opts))"
      using gif(3) by auto
    then show ?thesis using gif(1,2) by simp
  qed
  then show ?thesis by (cases "quality opts") simp_all
qed

text \<open>
  Quality 0 with a bitrate gives \<open>-crf\<close> only; a bitrate alone gives \<open>-b:v\<close> only; and a
  preset spelled \<open>-b:v\<close> is the value of \<open>-preset\<close>, not an option.
\<close>

theorem quality_bitrate_exclusive_witness:
  "flags_of (build_video_opts ''.mp4'' (default_options\<lparr>quality := Some 0, bitrate := Some ''2M''\<rparr>))
     = [''-c:v'', ''-crf'', ''-c:a'', ''-b:a'']
   \<and> ''-crf'' \<in> set (flags_of (build_video_opts ''.mp4''
                            (default_options\<lparr>quality := Some 0, bitrate := Some ''2M''\<rparr>)))
   \<and> ''-b:v'' \<notin> set (flags_of (build_video_opts ''.mp4''
                            (default_options\<lparr>quality := Some 0, bitrate := Some ''2M''\<rparr>)))
   \<and> ''-b:v'' \<in> set (flags_of (build_video_opts ''.mp4'' (default_options\<lparr>bitrate := Some ''2M''\<rparr>)))
   \<and> ''-crf'' \<notin> set (flags_of (build_video_opts ''.mp4'' (default_options\<lparr>bitrate := Some ''2M''\<rparr>)))
   \<and> ''-crf'' \<in> set (flags_of (build_video_opts ''.mp4''
                            (default_options\<lparr>quality := Some 23, preset := Some ''-b:v''\<rparr>)))
   \<and> ''-b:v'' \<notin> set (flags_of (build_video_opts ''.mp4''
                            (default_options\<lparr>quality := Some 23, preset := Some ''-b:v''\<rparr>)))"
proof -
  let ?a = "default_options\<lparr>quality := Some 0, bitrate := Some ''2M''\<rparr>"
  let ?b = "default_options\<lparr>bitrate := Some ''2M''\<rparr>"
  let ?c = "default_options\<lparr>quality := Some 23, preset := Some ''-b:v''\<rparr>"
  have h: "extra_args ?a = None" "extra_args ?b = None" "extra_args ?c = None"
    by (simp_all add: default_options_def)
  have f: "flags_of (build_video_opts ''.mp4'' ?a) = [''-c:v'', ''-crf'', ''-c:a'', ''-b:a'']"
    by code_simp
  from quality_bitrate_exclusive [OF h(1), of "''.mp4''"]
       quality_bitrate_exclusive [OF h(2), of "''.mp4''"]
       quality_bitrate_exclusive [OF h(3), of "''.mp4''"] f
  show ?thesis by (simp add: default_options_def lower_samples)
qed

text \<open>
  Claim C4 as stated has \<open>-crf\<close> emitted whenever the quality is set. With the options of
  the menu entry "video to GIF" (quality 10, no \<open>extra_args\<close>) the GIF branch returns
  without it.
\<close>

theorem gif_quality_counterexample:
  "quality (default_options\<lparr>width := Some 480, fps := Some 15, quality := Some 10\<rparr>) = Some 10
   \<and> extra_args (default_options\<lparr>width := Some 480, fps := Some 15, quality := Some 10\<rparr>) = None
   \<and> build_video_opts ''.gif'' (default_options\<lparr>width := Some 480, fps := Some 15, quality := Some 10\<rparr>)
       = [''-vf'', ''scale=480:-1,fps=15'',
          ''-vf'', ''fps=15,scale=480:-1:flags=lanczos,split[s0][s1];[s0]palettegen=max_colors=128[p];[s1][p]paletteuse'',
          ''-loop'', ''0'']
   \<and> ''-crf'' \<notin> set (build_video_opts ''.gif''
                        (default_options\<lparr>width := Some 480, fps := Some 15, quality := Some 10\<rparr>))"
  by code_simp

subsection \<open>C6: the scale filter with one dimension\<close>

text \<open>
  Claim C6, as amended. When exactly one of width and height is set, to a value other than
  zero, and the other is absent, the scale filter of \<open>_build_filter\<close> and of
  \<open>_build_image_opts\<close> carries \<open>-1\<close> on the other axis: \<open>scale=w:-1\<close> and \<open>scale=-1:h\<close> (with
  \<open>:flags=lanczos\<close> for images). When both are set, to values other than zero and \<open>-1\<close>, the
  filter is \<open>scale=w:h\<close>, and it differs from the width-only and from the height-only
  filter.
\<close>

theorem scale_filter_one_axis:
  assumes "w \<noteq> 0" "h \<noteq> 0"
  shows "build_filter (opts\<lparr>width := Some w, height := None\<rparr>)
           = [''-vf'', join '','' ((''scale='' @ str_int w @ '':-1'') # fps_filters opts)]
       \<and> build_filter (opts\<lparr>width := None, height := Some h\<rparr>)
           = [''-vf'', join '','' ((''scale=-1:'' @ str_int h) # fps_filters opts)]
       \<and> image_scale_filters (opts\<lparr>width := Some w, height := None\<rparr>)
           = [''scale='' @ str_int w @ '':-1:flags=lanczos'']
       \<and> image_scale_filters (opts\<lparr>width := None, height := Some h\<rparr>)
           = [''scale=-1:'' @ str_int h @ '':flags=lanczos'']
       \<and> (w \<noteq> - 1 \<and> h \<noteq> - 1 \<longrightarrow>
            build_filter (opts\<lparr>width := Some w, height := Some h\<rparr>)
              = [''-vf'', join '','' ((''scale='' @ str_int w @ '':'' @ str_int h) # fps_filters opts)]
            \<and> build_filter (opts\<lparr>width := Some w, height := Some h\<rparr>)
                \<noteq> build_filter (opts\<lparr>width := Some w, height := None\<rparr>)
            \<and> build_filter (opts\<lparr>width := Some w, height := Some h\<rparr>)
                \<noteq> build_filter (opts\<lparr>width := None, height := Some h\<rparr>)
            \<and> image_scale_filters (opts\<lparr>width := Some w, height := Some h\<rparr>)
                \<noteq> image_scale_filters (opts\<lparr>width := Some w, height := None\<rparr>)
            \<and> image_scale_filters (opts\<lparr>width := Some w, height := Some h\<rparr>)
                \<noteq> image_scale_filters (opts\<lparr>width := None, height := Some h\<rparr>))"
proof -
  have f: "fps_filters (opts\<lparr>width := a, height := b\<rparr>) = fps_filters opts" for a b
    by (simp add: fps_filters_def)
  have s1: "scale_filters (opts\<lparr>width := Some w, height := None\<rparr>) = [''scale='' @ str_int w @ '':-1'']"
    using assms(1) by (simp add: scale_filters_def Let_def str_int_values)
  have s2: "scale_filters (opts\<lparr>width := None, height := Some h\<rparr>) = [''scale=-1:'' @ str_int h]"
    using assms(2) by (simp add: scale_filters_def Let_def)
  have s3: "w \<noteq> - 1 \<Longrightarrow> h \<noteq> - 1 \<Longrightarrow>
      scale_filters (opts\<lparr>width := Some w, height := Some h\<rparr>) = [''scale='' @ str_int w @ '':'' @ str_int h]"
    using assms by (simp add: scale_filters_def Let_def)
  have b1: "build_filter (opts\<lparr>width := Some w, height := None\<rparr>)
           = [''-vf'', join '','' ((''scale='' @ str_int w @ '':-1'') # fps_filters opts)]"
    by (simp add: build_filter_def Let_def s1 f)
  have b2: "build_filter (opts\<lparr>width := None, height := Some h\<rparr>)
           = [''-vf'', join '','' ((''scale=-1:'' @ str_int h) # fps_filters opts)]"
    by (simp add: build_filter_def Let_def s2 f)
  have b3: "w \<noteq> - 1 \<Longrightarrow> h \<noteq> - 1 \<Longrightarrow> build_filter (opts\<lparr>width := Some w, height := Some h\<rparr>)
              = [''-vf'', join '','' ((''scale='' @ str_int w @ '':'' @ str_int h) # fps_filters opts)]"
    by (simp add: build_filter_def Let_def s3 f)
  have i1: "image_scale_filters (opts\<lparr>width := Some w, height := None\<rparr>)
           = [''scale='' @ str_int w @ '':-1:flags=lanczos'']"
    using assms(1) by (simp add: image_scale_filters_def str_int_values)
  have i2: "image_scale_filters (opts\<lparr>width := None, height := Some h\<rparr>)
           = [''scale=-1:'' @ str_int h @ '':flags=lanczos'']"
    using assms(2) by (simp add: image_scale_filters_def str_int_values)
  have i3: "image_scale_filters (opts\<lparr>width := Some w, height := Some h\<rparr>)
           = [''scale='' @ str_int w @ '':'' @ str_int h @ '':flags=lanczos'']"
    using assms by (simp add: image_scale_filters_def)
  have d1: "h \<noteq> - 1 \<Longrightarrow> str_int w @ '':'' @ str_int h \<noteq> str_int w @ '':-1''"
    by (simp add: str_int_minus_one)
  have d2: "w \<noteq> - 1 \<Longrightarrow> str_int w @ '':'' @ str_int h \<noteq> ''-1:'' @ str_int h"
    using str_int_minus_one [of w] by simp
  have d3: "h \<noteq> - 1 \<Longrightarrow> str_int w @ '':'' @ str_int h @ '':flags=lanczos'' \<noteq> str_int w @ '':-1:flags=lanczos''"
    using str_int_minus_one [of h] by simp
  have d4: "w \<noteq> - 1 \<Longrightarrow> str_int w @ '':'' @ str_int h @ '':flags=lanczos'' \<noteq> ''-1:'' @ str_int h @ '':flags=lanczos''"
    using str_int_minus_one [of w] by simp
  show ?thesis
    using d1 d2 d3 d4 by (simp add: b1 b2 b3 i1 i2 i3 join_Cons_inject)
qed

text \<open>Width 5 alone, height 9 alone, and both.\<close>

theorem scale_filter_one_axis_witness:
  "build_filter (default_options\<lparr>width := Some 5, height := None\<rparr>) = [''-vf'', ''scale=5:-1'']
   \<and> build_filter (default_options\<lparr>width := None, height := Some 9\<rparr>) = [''-vf'', ''scale=-1:9'']
   \<and> build_filter (default_options\<lparr>width := Some 5, height := Some 9\<rparr>) = [''-vf'', ''scale=5:9'']
   \<and> image_scale_filters (default_options\<lparr>width := Some 5, height := None\<rparr>)
       = [''scale=5:-1:flags=lanczos'']
   \<and> image_scale_filters (default_options\<lparr>width := None, height := Some 9\<rparr>)
       = [''scale=-1:9:flags=lanczos'']"
proof -
  have h: "(5::int) \<noteq> 0" "(9::int) \<noteq> 0" by simp_all
  have f: "fps_filters default_options = []"
    by (simp add: fps_filters_def default_options_def)
  from scale_filter_one_axis [OF h, of default_options] f
  show ?thesis by (simp add: str_int_values)
qed

text \<open>
  Claim C6 as stated covers every pair with exactly one dimension set. The code tests
  truthiness: a width of 0 (what \<open>parse_size\<close> returns for the input \<open>0\<close>) with no height
  yields no scale filter at all. And a height of \<open>-1\<close> is the marker itself: width 5 with
  height \<open>-1\<close> gives the same filter as width 5 alone.
\<close>

theorem zero_width_counterexample:
  "build_filter (default_options\<lparr>width := Some 0, height := None\<rparr>) = []
   \<and> build_image_opts ''.bmp'' (default_options\<lparr>width := Some 0, height := None\<rparr>) = [''-y'']
   \<and> build_filter (default_options\<lparr>width := Some 5, height := Some (- 1)\<rparr>) = [''-vf'', ''scale=5:-1'']
   \<and> build_filter (default_options\<lparr>width := Some 5, height := None\<rparr>) = [''-vf'', ''scale=5:-1'']"
  by code_simp

end
